theory Spec2Isabelle
  imports Complex_Main "HOL-Library.AList"
begin

section \<open>Conventions of the embedding\<close>

text \<open>
  The two validators of \<^verbatim>\<open>scripts/game_theory\<close> are embedded function by function.
  Python \<^verbatim>\<open>float\<close> values are read as real numbers: rounding, NaN and overflow are
  not modelled, and the one infinite value the code produces on purpose
  (\<^verbatim>\<open>float('inf')\<close> in \<^verbatim>\<open>Proposal.roi\<close>) has a constructor of its own.
  A \<^verbatim>\<open>dict\<close> is an association list in insertion order, a dataclass is a record
  and compares field by field as the generated \<^verbatim>\<open>__eq__\<close> does, an \<^verbatim>\<open>Enum\<close> is a
  datatype, and an exception is the left summand of a result.
  Printing to the terminal is left out.  Local variables that would clash with a
  field name carry a shorter name (\<open>ag\<close> for \<^verbatim>\<open>agent\<close>, \<open>act\<close> for \<^verbatim>\<open>action\<close>).
\<close>

datatype py_error = AttributeError | ZeroDivisionError | ValueError

type_synonym ('k, 'v) dict = "('k \<times> 'v) list"

definition dict_get :: "('k, 'v) dict \<Rightarrow> 'k \<Rightarrow> 'v \<Rightarrow> 'v" where
  "dict_get d k dflt = (case map_of d k of None \<Rightarrow> dflt | Some v \<Rightarrow> v)"

definition dict_set :: "('k, 'v) dict \<Rightarrow> 'k \<Rightarrow> 'v \<Rightarrow> ('k, 'v) dict" where
  "dict_set d k v = AList.update k v d"

section \<open>Data model of \<^verbatim>\<open>raci_game_validator.py\<close>\<close>

datatype AgentTier = TIER1_OBSERVER | TIER2_DEVELOPER | TIER3_OPERATIONS | TIER4_ARCHITECT

fun tier_value :: "AgentTier \<Rightarrow> int" where
  "tier_value TIER1_OBSERVER = 1"
| "tier_value TIER2_DEVELOPER = 2"
| "tier_value TIER3_OPERATIONS = 3"
| "tier_value TIER4_ARCHITECT = 4"

record Agent =
  agent_id :: string
  tier :: AgentTier
  controls :: "string list"
  cost_per_action :: real
  risk_tolerance :: real

record Action =
  action_id :: string
  control_id :: string
  description :: string
  cost :: real
  risk :: real
  compliance_value :: real
  requires_approval :: bool

text \<open>
  \<^verbatim>\<open>validate_raci_constraints\<close> tests \<^verbatim>\<open>not assignment.accountable\<close> and
  \<^verbatim>\<open>not assignment.responsible\<close>; an \<^verbatim>\<open>Agent\<close> object is always true, so the
  tests can only fire on \<^verbatim>\<open>None\<close>.  Both fields are therefore optional here.
\<close>

record RACIAssignment =
  control_id :: string
  responsible :: "Agent option"
  accountable :: "Agent option"
  consulted :: "Agent list"
  informed :: "Agent list"

record GameState =
  agents :: "Agent list"
  raci_assignments :: "RACIAssignment list"
  actions_taken :: "(Agent \<times> Action) list"
  compliance_score :: real
  total_cost :: real
  total_risk :: real

record PayoffMatrix =
  agent :: Agent
  action :: Action
  payoff :: real
  breakdown :: "(string, real) dict"

record RACIGameValidator =
  agents :: "Agent list"
  raci_assignments :: "RACIAssignment list"
  agents_by_tier :: "(AgentTier, Agent list) dict"

definition organize_by_tier :: "Agent list \<Rightarrow> (AgentTier, Agent list) dict" where
  "organize_by_tier ags =
     map (\<lambda>t. (t, filter (\<lambda>a. tier a = t) ags))
       [TIER1_OBSERVER, TIER2_DEVELOPER, TIER3_OPERATIONS, TIER4_ARCHITECT]"

definition RACIGameValidator_init :: "Agent list \<Rightarrow> RACIAssignment list \<Rightarrow> RACIGameValidator" where
  "RACIGameValidator_init ags asgs =
     \<lparr>RACIGameValidator.agents = ags, RACIGameValidator.raci_assignments = asgs,
      agents_by_tier = organize_by_tier ags\<rparr>"

section \<open>\<^verbatim>\<open>calculate_payoff\<close>\<close>

text \<open>One turn of the loop over \<^verbatim>\<open>self.raci_assignments\<close> that adds up the bonus.\<close>

definition bonus_step :: "Agent \<Rightarrow> Action \<Rightarrow> real \<Rightarrow> RACIAssignment \<Rightarrow> real" where
  "bonus_step ag act cooperation_bonus assignment =
     (if RACIAssignment.control_id assignment = Action.control_id act then
        (if Some ag = responsible assignment then cooperation_bonus + 2.0
         else if ag \<in> set (consulted assignment) then cooperation_bonus + 0.5
         else cooperation_bonus)
      else cooperation_bonus)"

definition calculate_payoff ::
  "RACIGameValidator \<Rightarrow> Agent \<Rightarrow> Action \<Rightarrow> GameState \<Rightarrow> PayoffMatrix" where
  "calculate_payoff self ag act game_state =
     (let compliance_value' = compliance_value act;
          cost' = cost act * cost_per_action ag;
          risk_penalty = risk act * (1 - risk_tolerance ag);
          cooperation_bonus = foldl (bonus_step ag act) 0.0 (RACIGameValidator.raci_assignments self);
          payoff' = compliance_value' - cost' - risk_penalty + cooperation_bonus;
          breakdown' = [(''compliance_value'', compliance_value'), (''cost'', - cost'),
                        (''risk_penalty'', - risk_penalty),
                        (''cooperation_bonus'', cooperation_bonus), (''total'', payoff')]
      in \<lparr>agent = ag, action = act, payoff = payoff', breakdown = breakdown'\<rparr>)"

text \<open>The bonus one assignment contributes, and what the claim calls the bonus.\<close>

definition assignment_bonus :: "Agent \<Rightarrow> Action \<Rightarrow> RACIAssignment \<Rightarrow> real" where
  "assignment_bonus ag act assignment = bonus_step ag act 0 assignment"

definition is_responsible_for :: "RACIGameValidator \<Rightarrow> Agent \<Rightarrow> string \<Rightarrow> bool" where
  "is_responsible_for self ag c =
     list_ex (\<lambda>asg. RACIAssignment.control_id asg = c \<and> responsible asg = Some ag)
       (RACIGameValidator.raci_assignments self)"

definition is_consulted_for :: "RACIGameValidator \<Rightarrow> Agent \<Rightarrow> string \<Rightarrow> bool" where
  "is_consulted_for self ag c =
     list_ex (\<lambda>asg. RACIAssignment.control_id asg = c \<and> ag \<in> set (consulted asg))
       (RACIGameValidator.raci_assignments self)"

definition claimed_bonus :: "RACIGameValidator \<Rightarrow> Agent \<Rightarrow> Action \<Rightarrow> real" where
  "claimed_bonus self ag act =
     (if is_responsible_for self ag (Action.control_id act) then 2.0
      else if is_consulted_for self ag (Action.control_id act) then 0.5 else 0)"

definition claimed_payoff :: "RACIGameValidator \<Rightarrow> Agent \<Rightarrow> Action \<Rightarrow> real" where
  "claimed_payoff self ag act =
     compliance_value act - cost act * cost_per_action ag
       - risk act * (1 - risk_tolerance ag) + claimed_bonus self ag act"

section \<open>\<^verbatim>\<open>validate_raci_constraints\<close>\<close>

text \<open>\<^verbatim>\<open>str(agent.tier.value)\<close>, as the f-strings print it.\<close>

fun tier_str :: "AgentTier \<Rightarrow> string" where
  "tier_str TIER1_OBSERVER = ''1''"
| "tier_str TIER2_DEVELOPER = ''2''"
| "tier_str TIER3_OPERATIONS = ''3''"
| "tier_str TIER4_ARCHITECT = ''4''"

text \<open>
  Rule 4 of the loop body: \<^verbatim>\<open>assignment.accountable and
  assignment.accountable.tier.value < 3\<close>.
\<close>

definition rule4 :: "string \<Rightarrow> Agent option \<Rightarrow> string list \<Rightarrow> string list" where
  "rule4 control acc violations =
     (case acc of
        None \<Rightarrow> violations
      | Some a \<Rightarrow>
          if tier_value (tier a) < 3
          then violations @ [control @ '': Accountable agent '' @ agent_id a @ '' is Tier ''
                               @ tier_str (tier a) @ '', requires Tier 3+'']
          else violations)"

text \<open>
  The loop body.  Rule 3 compares the two fields with \<^verbatim>\<open>==\<close> and then formats
  \<^verbatim>\<open>assignment.responsible.agent_id\<close>: when both fields are \<^verbatim>\<open>None\<close> the
  comparison is true and the attribute access raises \<^verbatim>\<open>AttributeError\<close>.
\<close>

definition validate_step :: "string list \<Rightarrow> RACIAssignment \<Rightarrow> py_error + string list" where
  "validate_step violations assignment =
     (let control = RACIAssignment.control_id assignment;
          v1 = (if accountable assignment = None
                then violations @ [control @ '': No Accountable agent assigned'']
                else violations);
          v2 = (if responsible assignment = None
                then v1 @ [control @ '': No Responsible agent assigned'']
                else v1)
      in if responsible assignment = accountable assignment then
           (case responsible assignment of
              None \<Rightarrow> Inl AttributeError
            | Some r \<Rightarrow>
                Inr (rule4 control (accountable assignment)
                       (v2 @ [control @ '': Agent '' @ agent_id r
                                @ '' cannot be both Responsible and Accountable''])))
         else Inr (rule4 control (accountable assignment) v2))"

fun validate_loop :: "string list \<Rightarrow> RACIAssignment list \<Rightarrow> py_error + string list" where
  "validate_loop violations [] = Inr violations"
| "validate_loop violations (assignment # rest) =
     (case validate_step violations assignment of
        Inl e \<Rightarrow> Inl e
      | Inr violations' \<Rightarrow> validate_loop violations' rest)"

definition validate_raci_constraints :: "RACIGameValidator \<Rightarrow> py_error + (bool \<times> string list)" where
  "validate_raci_constraints self =
     (case validate_loop [] (RACIGameValidator.raci_assignments self) of
        Inl e \<Rightarrow> Inl e
      | Inr violations \<Rightarrow> Inr (length violations = 0, violations))"

text \<open>
  The rules as the specification words them, for comparison with the code: an
  accountable agent, a responsible agent, the two different, and the accountable
  agent's tier at least the responsible agent's.
\<close>

definition claimed_rules_hold :: "RACIAssignment \<Rightarrow> bool" where
  "claimed_rules_hold assignment =
     (case (responsible assignment, accountable assignment) of
        (Some r, Some a) \<Rightarrow> r \<noteq> a \<and> tier_value (tier a) \<ge> tier_value (tier r)
      | _ \<Rightarrow> False)"

text \<open>The rules the loop body tests: the tier rule is Tier 3 or above for the accountable agent.\<close>

definition checked_rules_hold :: "RACIAssignment \<Rightarrow> bool" where
  "checked_rules_hold assignment =
     (case (responsible assignment, accountable assignment) of
        (Some r, Some a) \<Rightarrow> r \<noteq> a \<and> tier_value (tier a) \<ge> 3
      | _ \<Rightarrow> False)"

text \<open>The messages one assignment adds, in the order of the four rules.\<close>

definition assignment_violations :: "RACIAssignment \<Rightarrow> string list" where
  "assignment_violations assignment =
     (let control = RACIAssignment.control_id assignment in
        (if accountable assignment = None
         then [control @ '': No Accountable agent assigned''] else [])
      @ (if responsible assignment = None
         then [control @ '': No Responsible agent assigned''] else [])
      @ (case responsible assignment of
           Some r \<Rightarrow> if accountable assignment = Some r
                     then [control @ '': Agent '' @ agent_id r
                             @ '' cannot be both Responsible and Accountable'']
                     else []
         | None \<Rightarrow> [])
      @ rule4 control (accountable assignment) [])"

section \<open>\<^verbatim>\<open>find_best_response\<close> and \<^verbatim>\<open>stackelberg_equilibrium\<close>\<close>

text \<open>
  \<^verbatim>\<open>max(iterable, key=...)\<close> on a non-empty sequence: the first item is the
  candidate and a later item replaces it only when its key is strictly greater.
\<close>

definition max_key :: "('a \<Rightarrow> real) \<Rightarrow> 'a \<Rightarrow> 'a list \<Rightarrow> 'a" where
  "max_key key x xs = foldl (\<lambda>best y. if key y > key best then y else best) x xs"

definition find_best_response ::
  "RACIGameValidator \<Rightarrow> Agent \<Rightarrow> Action list \<Rightarrow> GameState \<Rightarrow> Action option" where
  "find_best_response self ag actions game_state =
     (if actions = [] then None
      else
        (let payoffs = map (\<lambda>act. calculate_payoff self ag act game_state) actions;
             best = max_key payoff (hd payoffs) (tl payoffs)
         in if payoff best > 0 then Some (action best) else None))"

text \<open>\<^verbatim>\<open>sorted(self.agents, key=lambda a: a.tier.value, reverse=True)\<close>: stable, highest tier first.\<close>

definition sorted_agents :: "Agent list \<Rightarrow> Agent list" where
  "sorted_agents ags = sort_key (\<lambda>a. - tier_value (tier a)) ags"

definition initial_game_state :: "RACIGameValidator \<Rightarrow> GameState" where
  "initial_game_state self =
     \<lparr>GameState.agents = RACIGameValidator.agents self,
      GameState.raci_assignments = RACIGameValidator.raci_assignments self,
      actions_taken = [], compliance_score = 0.0, total_cost = 0.0, total_risk = 0.0\<rparr>"

text \<open>One turn of the loop over the sorted agents; the state is the pair of the running
  \<^verbatim>\<open>game_state\<close> and the \<^verbatim>\<open>action_profile\<close> built so far.\<close>

definition stackelberg_step ::
  "RACIGameValidator \<Rightarrow> (Agent, Action list) dict \<Rightarrow> GameState \<times> (Agent, Action) dict \<Rightarrow> Agent
     \<Rightarrow> GameState \<times> (Agent, Action) dict" where
  "stackelberg_step self actions_by_agent st ag =
     (let game_state = fst st;
          action_profile = snd st;
          available_actions = dict_get actions_by_agent ag [];
          best_action = find_best_response self ag available_actions game_state
      in case best_action of
           Some b \<Rightarrow>
             (game_state\<lparr>actions_taken := actions_taken game_state @ [(ag, b)],
                         compliance_score := compliance_score game_state + compliance_value b,
                         total_cost := total_cost game_state + cost b,
                         total_risk := total_risk game_state + risk b\<rparr>,
              dict_set action_profile ag b)
         | None \<Rightarrow> (game_state, action_profile))"

definition stackelberg_loop ::
  "RACIGameValidator \<Rightarrow> (Agent, Action list) dict \<Rightarrow> GameState \<times> (Agent, Action) dict
     \<Rightarrow> Agent list \<Rightarrow> GameState \<times> (Agent, Action) dict" where
  "stackelberg_loop self actions_by_agent st ags = foldl (stackelberg_step self actions_by_agent) st ags"

definition stackelberg_run ::
  "RACIGameValidator \<Rightarrow> (Agent, Action list) dict \<Rightarrow> GameState \<times> (Agent, Action) dict" where
  "stackelberg_run self actions_by_agent =
     stackelberg_loop self actions_by_agent (initial_game_state self, [])
       (sorted_agents (RACIGameValidator.agents self))"

definition stackelberg_equilibrium ::
  "RACIGameValidator \<Rightarrow> (Agent, Action list) dict \<Rightarrow> (Agent, Action) dict" where
  "stackelberg_equilibrium self actions_by_agent = snd (stackelberg_run self actions_by_agent)"

section \<open>\<^verbatim>\<open>check_nash_equilibrium\<close>\<close>

definition get_agent_actions :: "RACIGameValidator \<Rightarrow> Agent \<Rightarrow> Action list" where
  "get_agent_actions self ag =
     map (\<lambda>control.
            \<lparr>action_id = agent_id ag @ ''_'' @ control @ ''_execute'',
             Action.control_id = control,
             description = ''Execute '' @ control,
             cost = 1.0, risk = 0.3, compliance_value = 5.0,
             requires_approval = (tier_value (tier ag) \<ge> 3)\<rparr>)
         (controls ag)"

text \<open>
  A violation message of \<^verbatim>\<open>check_nash_equilibrium\<close> is kept as the values its
  f-string interpolates (agent id, current action id and payoff, alternative action id
  and payoff); the two-decimal rendering of the payoffs is not modelled.
\<close>

datatype nash_violation = CanImprove string string real string real

definition deviation_message :: "Agent \<Rightarrow> Action \<Rightarrow> PayoffMatrix \<Rightarrow> Action \<Rightarrow> PayoffMatrix \<Rightarrow> nash_violation" where
  "deviation_message ag current_action current_payoff alt_action alt_payoff =
     CanImprove (agent_id ag) (action_id current_action) (payoff current_payoff)
       (action_id alt_action) (payoff alt_payoff)"

definition nash_alt_step ::
  "RACIGameValidator \<Rightarrow> GameState \<Rightarrow> Agent \<Rightarrow> Action \<Rightarrow> PayoffMatrix \<Rightarrow> nash_violation list
     \<Rightarrow> Action \<Rightarrow> nash_violation list" where
  "nash_alt_step self game_state ag current_action current_payoff violations alt_action =
     (if alt_action = current_action then violations
      else
        (let alt_payoff = calculate_payoff self ag alt_action game_state
         in if payoff alt_payoff > payoff current_payoff + 0.01
            then violations @ [deviation_message ag current_action current_payoff alt_action alt_payoff]
            else violations))"

definition nash_agent_step ::
  "RACIGameValidator \<Rightarrow> GameState \<Rightarrow> nash_violation list \<Rightarrow> Agent \<times> Action \<Rightarrow> nash_violation list" where
  "nash_agent_step self game_state violations item =
     (let ag = fst item;
          current_action = snd item;
          current_payoff = calculate_payoff self ag current_action game_state;
          possible_actions = get_agent_actions self ag
      in foldl (nash_alt_step self game_state ag current_action current_payoff) violations
           possible_actions)"

definition check_nash_equilibrium ::
  "RACIGameValidator \<Rightarrow> GameState \<Rightarrow> (Agent, Action) dict \<Rightarrow> bool \<times> nash_violation list" where
  "check_nash_equilibrium self game_state action_profile =
     (let violations = foldl (nash_agent_step self game_state) [] action_profile;
          is_equilibrium = (length violations = 0)
      in (is_equilibrium, violations))"

text \<open>The payoff number and the alternatives that beat a current action by more than 0.01.\<close>

definition payoff_of :: "RACIGameValidator \<Rightarrow> GameState \<Rightarrow> Agent \<Rightarrow> Action \<Rightarrow> real" where
  "payoff_of self game_state ag act = payoff (calculate_payoff self ag act game_state)"

definition improving_alternatives ::
  "RACIGameValidator \<Rightarrow> GameState \<Rightarrow> Agent \<Rightarrow> Action \<Rightarrow> Action list" where
  "improving_alternatives self game_state ag current_action =
     filter (\<lambda>alt. payoff_of self game_state ag alt > payoff_of self game_state ag current_action + 0.01)
       (get_agent_actions self ag)"

definition agent_deviations ::
  "RACIGameValidator \<Rightarrow> GameState \<Rightarrow> Agent \<times> Action \<Rightarrow> nash_violation list" where
  "agent_deviations self game_state item =
     map (\<lambda>alt. deviation_message (fst item) (snd item)
                  (calculate_payoff self (fst item) (snd item) game_state) alt
                  (calculate_payoff self (fst item) alt game_state))
       (improving_alternatives self game_state (fst item) (snd item))"

section \<open>Data model of \<^verbatim>\<open>cooperative_improvement_validator.py\<close>\<close>

datatype ProposalType =
  COST_REDUCTION | EFFICIENCY_GAIN | WORKFLOW_OPTIMIZATION | RISK_MITIGATION | COMPLIANCE_ENHANCEMENT

datatype ReviewStatus = PENDING | IN_REVIEW | APPROVED | REJECTED | INSUFFICIENT_REVIEW

record ImprovementMetrics =
  cost_savings_usd :: real
  time_savings_hours :: real
  quality_improvement_pct :: real
  risk_reduction_pct :: real
  compliance_score_delta :: real

definition is_pareto_improvement :: "ImprovementMetrics \<Rightarrow> bool" where
  "is_pareto_improvement self =
     (let ms = [cost_savings_usd self, time_savings_hours self, quality_improvement_pct self,
                risk_reduction_pct self, compliance_score_delta self]
      in list_all (\<lambda>m. m \<ge> 0) ms \<and> list_ex (\<lambda>m. m > 0) ms)"

definition total_value :: "ImprovementMetrics \<Rightarrow> real" where
  "total_value self =
     cost_savings_usd self + time_savings_hours self * 75.0 + quality_improvement_pct self * 100.0
       + risk_reduction_pct self * 500.0 + compliance_score_delta self * 1000.0"

text \<open>A \<^verbatim>\<open>datetime\<close> is kept as a number of seconds; no claim reads one.\<close>

type_synonym datetime = int

record Proposal =
  proposal_id :: string
  agent_id :: string
  agent_tier :: int
  proposal_type :: ProposalType
  title :: string
  description :: string
  current_state :: string
  proposed_state :: string
  metrics :: ImprovementMetrics
  affected_controls :: "string list"
  implementation_cost_usd :: real
  implementation_time_hours :: real
  risk_assessment :: string
  submitted_at :: datetime
  jira_cr_id :: "string option"

text \<open>
  A float that may be \<^verbatim>\<open>float('inf')\<close>, and the comparison \<^verbatim>\<open>x < c\<close> of
  such a value with a finite constant.
\<close>

datatype py_float = Finite real | Infinity

fun float_less :: "py_float \<Rightarrow> real \<Rightarrow> bool" where
  "float_less (Finite x) c = (x < c)"
| "float_less Infinity c = False"

text \<open>Float division raises \<^verbatim>\<open>ZeroDivisionError\<close> on a zero divisor.\<close>

definition py_truediv :: "real \<Rightarrow> real \<Rightarrow> py_error + real" where
  "py_truediv x y = (if y = 0 then Inl ZeroDivisionError else Inr (x / y))"

definition net_benefit :: "Proposal \<Rightarrow> real" where
  "net_benefit self = total_value (metrics self) - implementation_cost_usd self"

definition roi :: "Proposal \<Rightarrow> py_error + py_float" where
  "roi self =
     (if implementation_cost_usd self = 0
      then Inr (if total_value (metrics self) > 0 then Infinity else Finite 0.0)
      else (case py_truediv (total_value (metrics self)) (implementation_cost_usd self) of
              Inl e \<Rightarrow> Inl e
            | Inr q \<Rightarrow> Inr (Finite q)))"

definition complexity_score :: "Proposal \<Rightarrow> real" where
  "complexity_score self =
     (let score0 = 0.0;
          score1 = score0 + real (length (affected_controls self)) * 5.0;
          score2 = score1 + min (implementation_time_hours self) 40.0;
          score3 = score2 + min (implementation_cost_usd self / 100.0) 20.0;
          score4 = score3 + min (real (length (Proposal.description self)) / 100.0) 15.0
      in min score4 100.0)"

text \<open>The value the specification gives for the score, with its clamp at both ends.\<close>

definition claimed_complexity_score :: "Proposal \<Rightarrow> real" where
  "claimed_complexity_score self =
     max 0 (min 100
       (5 * real (length (affected_controls self)) + min (implementation_time_hours self) 40
          + min (implementation_cost_usd self / 100) 20
          + min (real (length (Proposal.description self)) / 100) 15))"

record HumanReview =
  review_id :: string
  reviewer_id :: string
  reviewer_role :: string
  proposal_id :: string
  status :: ReviewStatus
  review_start_time :: datetime
  review_end_time :: "datetime option"
  review_duration_minutes :: real
  comments :: string
  approval_signature :: "string option"
  concerns_raised :: "string list"
  questions_asked :: int
  documents_reviewed :: "string list"

definition MIN_REVIEW_MINUTES_PER_COMPLEXITY :: real where
  "MIN_REVIEW_MINUTES_PER_COMPLEXITY = 0.5"

definition MAX_REVIEW_MINUTES_PER_COMPLEXITY :: real where
  "MAX_REVIEW_MINUTES_PER_COMPLEXITY = 3.0"

section \<open>\<^verbatim>\<open>validate_pareto_improvement\<close>\<close>

text \<open>
  The issues are kept as the values their messages interpolate: the net benefit, the
  total value and the cost for the second, the return on investment for the third.
\<close>

datatype pareto_issue =
  NotParetoImprovement
| NegativeNetBenefit real real real
| RoiTooLow py_float

definition validate_pareto_improvement :: "Proposal \<Rightarrow> py_error + (bool \<times> pareto_issue list)" where
  "validate_pareto_improvement proposal =
     (let issues0 = [];
          issues1 = (if \<not> is_pareto_improvement (metrics proposal)
                     then issues0 @ [NotParetoImprovement] else issues0);
          nb = net_benefit proposal;
          issues2 = (if nb \<le> 0
                     then issues1 @ [NegativeNetBenefit nb (total_value (metrics proposal))
                                       (implementation_cost_usd proposal)]
                     else issues1)
      in case roi proposal of
           Inl e \<Rightarrow> Inl e
         | Inr r \<Rightarrow>
             (let issues3 = (if float_less r 1.2 then issues2 @ [RoiTooLow r] else issues2)
              in Inr (length issues3 = 0, issues3)))"

section \<open>\<^verbatim>\<open>validate_truthful_reporting\<close>\<close>

datatype truth_warning =
  NewAgentLimitedHistory
| UnderestimatesCosts nat nat
| OverestimatesBenefits nat nat
| DisproportionateBenefits real real

definition cost_errors :: "Proposal list \<Rightarrow> string list" where
  "cost_errors agent_history =
     map Proposal.proposal_id
       (filter (\<lambda>past_proposal. total_value (metrics past_proposal) > 10000
                                \<and> implementation_cost_usd past_proposal < 100) agent_history)"

definition time_errors :: "Proposal list \<Rightarrow> string list" where
  "time_errors agent_history =
     map Proposal.proposal_id
       (filter (\<lambda>past_proposal. implementation_time_hours past_proposal < 1
                                \<and> time_savings_hours (metrics past_proposal) > 100) agent_history)"

definition validate_truthful_reporting :: "Proposal \<Rightarrow> Proposal list \<Rightarrow> real \<times> truth_warning list" where
  "validate_truthful_reporting proposal agent_history =
     (if agent_history = [] then (0.9, [NewAgentLimitedHistory])
      else
        (let ce = cost_errors agent_history;
             te = time_errors agent_history;
             n = length agent_history;
             s1 = (if real (length ce) > real n * 0.3
                   then (1.0 - 0.2, [UnderestimatesCosts (length ce) n]) else (1.0, []));
             s2 = (if real (length te) > real n * 0.3
                   then (fst s1 - 0.2, snd s1 @ [OverestimatesBenefits (length te) n]) else s1);
             s3 = (if total_value (metrics proposal) > 50000 \<and> implementation_cost_usd proposal < 500
                   then (fst s2 - 0.1,
                         snd s2 @ [DisproportionateBenefits (total_value (metrics proposal))
                                     (implementation_cost_usd proposal)])
                   else s2)
         in (max (fst s3) 0.0, snd s3)))"

text \<open>
  The two bad patterns of a past proposal and the conditions of the three deductions,
  stated on the proposals themselves rather than through the lists the code builds:
  a past proposal underestimates its cost when it claims a total value above 10000 at a
  cost below 100, and overestimates its benefit when it claims more than 100 hours of
  time savings for less than one hour of implementation; a pattern counts when more
  than 30% of the past proposals show it.
\<close>

definition underestimated_cost :: "Proposal \<Rightarrow> bool" where
  "underestimated_cost q = (total_value (metrics q) > 10000 \<and> implementation_cost_usd q < 100)"

definition overestimated_benefit :: "Proposal \<Rightarrow> bool" where
  "overestimated_benefit q =
     (implementation_time_hours q < 1 \<and> time_savings_hours (metrics q) > 100)"

definition cost_pattern :: "Proposal list \<Rightarrow> bool" where
  "cost_pattern h = (real (length (filter underestimated_cost h)) > 0.3 * real (length h))"

definition time_pattern :: "Proposal list \<Rightarrow> bool" where
  "time_pattern h = (real (length (filter overestimated_benefit h)) > 0.3 * real (length h))"

definition red_flag :: "Proposal \<Rightarrow> bool" where
  "red_flag p = (total_value (metrics p) > 50000 \<and> implementation_cost_usd p < 500)"

text \<open>
  The score as the specification words it: the third deduction is made when the claimed
  total value exceeds one hundred times the implementation cost.
\<close>

definition claimed_truthfulness_score :: "Proposal \<Rightarrow> Proposal list \<Rightarrow> real" where
  "claimed_truthfulness_score proposal agent_history =
     (if agent_history = [] then 0.9
      else max 0
        (1
         - (if cost_pattern agent_history then 0.2 else 0)
         - (if time_pattern agent_history then 0.2 else 0)
         - (if total_value (metrics proposal) > 100 * implementation_cost_usd proposal
            then 0.1 else 0)))"

section \<open>\<^verbatim>\<open>validate_review_diligence\<close>\<close>

datatype diligence_issue =
  ReviewTooShort real real real
| ReviewTooLong real real real
| InsufficientComments nat
| NoConcernsForRejection
| LowEngagement int

definition engagement_score :: "HumanReview \<Rightarrow> int" where
  "engagement_score review =
     (let e0 = 0;
          e1 = (if questions_asked review > 0 then e0 + 1 else e0);
          e2 = (if length (documents_reviewed review) > 0 then e1 + 1 else e1);
          e3 = (if length (comments review) > 100 then e2 + 1 else e2);
          e4 = (if concerns_raised review \<noteq> [] then e3 + 1 else e3)
      in e4)"

definition validate_review_diligence :: "Proposal \<Rightarrow> HumanReview \<Rightarrow> bool \<times> diligence_issue list" where
  "validate_review_diligence proposal review =
     (let issues0 = [];
          complexity = complexity_score proposal;
          min_expected_minutes = complexity * MIN_REVIEW_MINUTES_PER_COMPLEXITY;
          max_expected_minutes = complexity * MAX_REVIEW_MINUTES_PER_COMPLEXITY;
          review_time = review_duration_minutes review;
          issues1 = (if review_time < min_expected_minutes
                     then issues0 @ [ReviewTooShort review_time complexity min_expected_minutes]
                     else issues0);
          issues2 = (if review_time > max_expected_minutes * 2
                     then issues1 @ [ReviewTooLong review_time complexity max_expected_minutes]
                     else issues1);
          issues3 = (if status review = APPROVED \<and> length (comments review) < 50
                     then issues2 @ [InsufficientComments (length (comments review))]
                     else issues2);
          issues4 = (if status review = REJECTED \<and> concerns_raised review = []
                     then issues3 @ [NoConcernsForRejection]
                     else issues3);
          es = engagement_score review;
          issues5 = (if es < 2 then issues4 @ [LowEngagement es] else issues4)
      in (length issues5 = 0, issues5))"

text \<open>The five flags of the review check, each on its own.\<close>

definition too_short :: "Proposal \<Rightarrow> HumanReview \<Rightarrow> bool" where
  "too_short proposal review = (review_duration_minutes review < 0.5 * complexity_score proposal)"

definition too_long :: "Proposal \<Rightarrow> HumanReview \<Rightarrow> bool" where
  "too_long proposal review = (review_duration_minutes review > 2 * (3.0 * complexity_score proposal))"

definition thin_approval :: "HumanReview \<Rightarrow> bool" where
  "thin_approval review = (status review = APPROVED \<and> length (comments review) < 50)"

definition bare_rejection :: "HumanReview \<Rightarrow> bool" where
  "bare_rejection review = (status review = REJECTED \<and> concerns_raised review = [])"

definition low_engagement :: "HumanReview \<Rightarrow> bool" where
  "low_engagement review =
     ((if questions_asked review > 0 then 1 else 0)
      + (if length (documents_reviewed review) > 0 then 1 else 0)
      + (if length (comments review) > 100 then 1 else 0)
      + (if concerns_raised review \<noteq> [] then (1::int) else 0) < 2)"

section \<open>Reputation tracking (tit-for-tat)\<close>

text \<open>
  Modelled from the spec: \<^verbatim>\<open>AgentReputation\<close>, \<^verbatim>\<open>get_agent_reputation\<close> and
  \<^verbatim>\<open>record_proposal_outcome\<close> are imported and called by \<^verbatim>\<open>test_tit_for_tat.py\<close>
  but are not defined in \<^verbatim>\<open>cooperative_improvement_validator.py\<close>.  The record and the
  update below follow section 4.9 of the specification: the score starts at 1.0; an
  outcome quality of at least 0.85 adds 0.05, capped at 1.0; an outcome quality below
  0.5 subtracts 0.3, floored at 0.0; anything between leaves the score as it is.
\<close>

record AgentReputation =
  rep_agent_id :: string
  cooperation_score :: real

text \<open>Modelled from the spec: a fresh reputation, with the starting score 1.0.\<close>

definition new_reputation :: "string \<Rightarrow> AgentReputation" where
  "new_reputation aid = \<lparr>rep_agent_id = aid, cooperation_score = 1.0\<rparr>"

text \<open>Modelled from the spec: the update of the score on one resolved proposal.\<close>

definition record_outcome_quality :: "AgentReputation \<Rightarrow> real \<Rightarrow> AgentReputation" where
  "record_outcome_quality rep outcome_quality =
     (if outcome_quality \<ge> 0.85
      then rep\<lparr>cooperation_score := min 1.0 (cooperation_score rep + 0.05)\<rparr>
      else if outcome_quality < 0.5
      then rep\<lparr>cooperation_score := max 0.0 (cooperation_score rep - 0.3)\<rparr>
      else rep)"

text \<open>Modelled from the spec: a run of resolved proposals, oldest first.\<close>

definition record_outcomes :: "AgentReputation \<Rightarrow> real list \<Rightarrow> AgentReputation" where
  "record_outcomes rep qualities = foldl record_outcome_quality rep qualities"

text \<open>The entry an agent adds to \<^verbatim>\<open>actions_taken\<close>: its best response, if it has one.\<close>

definition chosen_move :: "RACIGameValidator \<Rightarrow> (Agent, Action list) dict \<Rightarrow> GameState \<Rightarrow> Agent \<Rightarrow> (Agent \<times> Action) option" where
  "chosen_move self aba gs0 a = map_option (Pair a) (find_best_response self a (dict_get aba a []) gs0)"

section \<open>Sample data\<close>

text \<open>The four agents and three assignments that \<^verbatim>\<open>main()\<close> of the RACI validator builds.\<close>

definition architect_agent :: Agent where
  "architect_agent =
     \<lparr>Agent.agent_id = ''architect-agent'', tier = TIER4_ARCHITECT,
      controls = [''APP-001'', ''G-02''], cost_per_action = 2.0, risk_tolerance = 0.8\<rparr>"

definition security_agent :: Agent where
  "security_agent =
     \<lparr>Agent.agent_id = ''security-agent'', tier = TIER3_OPERATIONS,
      controls = [''SEC-001'', ''MI-003''], cost_per_action = 1.5, risk_tolerance = 0.6\<rparr>"

definition ops_agent :: Agent where
  "ops_agent =
     \<lparr>Agent.agent_id = ''ops-agent'', tier = TIER3_OPERATIONS,
      controls = [''AU-002'', ''MI-020''], cost_per_action = 1.0, risk_tolerance = 0.5\<rparr>"

definition dev_agent :: Agent where
  "dev_agent =
     \<lparr>Agent.agent_id = ''dev-agent'', tier = TIER2_DEVELOPER,
      controls = [''MI-009'', ''MI-021''], cost_per_action = 0.8, risk_tolerance = 0.4\<rparr>"

definition app001_assignment :: RACIAssignment where
  "app001_assignment =
     \<lparr>RACIAssignment.control_id = ''APP-001'', responsible = Some security_agent,
      accountable = Some architect_agent, consulted = [ops_agent], informed = [dev_agent]\<rparr>"

definition sec001_assignment :: RACIAssignment where
  "sec001_assignment =
     \<lparr>RACIAssignment.control_id = ''SEC-001'', responsible = Some security_agent,
      accountable = Some architect_agent, consulted = [], informed = [ops_agent, dev_agent]\<rparr>"

definition au002_assignment :: RACIAssignment where
  "au002_assignment =
     \<lparr>RACIAssignment.control_id = ''AU-002'', responsible = Some ops_agent,
      accountable = Some architect_agent, consulted = [security_agent], informed = [dev_agent]\<rparr>"

definition main_agents :: "Agent list" where
  "main_agents = [architect_agent, security_agent, ops_agent, dev_agent]"

definition main_validator :: RACIGameValidator where
  "main_validator =
     RACIGameValidator_init main_agents [app001_assignment, sec001_assignment, au002_assignment]"

text \<open>The same agents with the assignment of APP-001 listed twice.\<close>

definition doubled_validator :: RACIGameValidator where
  "doubled_validator = RACIGameValidator_init main_agents [app001_assignment, app001_assignment]"

definition app001_action :: Action where
  "app001_action =
     \<lparr>action_id = ''security-agent_APP-001_execute'', Action.control_id = ''APP-001'',
      Action.description = ''Execute APP-001'', cost = 1.0, risk = 0.3, compliance_value = 5.0,
      requires_approval = True\<rparr>"

text \<open>An assignment whose accountable agent (Tier 3) ranks below its responsible agent (Tier 4).\<close>

definition inverted_validator :: RACIGameValidator where
  "inverted_validator =
     RACIGameValidator_init main_agents
       [\<lparr>RACIAssignment.control_id = ''APP-001'', responsible = Some architect_agent,
         accountable = Some security_agent, consulted = [], informed = []\<rparr>]"

text \<open>Two faulty assignments: one agent in both roles, and a Tier 2 accountable agent with
  no responsible agent.\<close>

definition flawed_validator :: RACIGameValidator where
  "flawed_validator =
     RACIGameValidator_init main_agents
       [\<lparr>RACIAssignment.control_id = ''G-02'', responsible = Some ops_agent,
         accountable = Some ops_agent, consulted = [], informed = []\<rparr>,
        \<lparr>RACIAssignment.control_id = ''MI-009'', responsible = None,
         accountable = Some dev_agent, consulted = [], informed = []\<rparr>]"

text \<open>The candidate actions \<^verbatim>\<open>main()\<close> passes to the solver, and the two of the security agent.\<close>

definition main_actions_by_agent :: "(Agent, Action list) dict" where
  "main_actions_by_agent = map (\<lambda>a. (a, get_agent_actions main_validator a)) main_agents"

definition sec001_action :: Action where
  "sec001_action =
     \<lparr>action_id = ''security-agent_SEC-001_execute'', Action.control_id = ''SEC-001'',
      Action.description = ''Execute SEC-001'', cost = 1.0, risk = 0.3, compliance_value = 5.0,
      requires_approval = True\<rparr>"

definition mi003_action :: Action where
  "mi003_action =
     \<lparr>action_id = ''security-agent_MI-003_execute'', Action.control_id = ''MI-003'',
       Action.description = ''Execute MI-003'', cost = 1.0, risk = 0.3, compliance_value = 5.0,
       requires_approval = True\<rparr>"

text \<open>A profile in which the security agent plays the action it is not responsible for.\<close>

definition dominated_profile :: "(Agent, Action) dict" where
  "dominated_profile = [(security_agent, mi003_action)]"

text \<open>The first proposal of \<^verbatim>\<open>test_tit_for_tat.py\<close>, and a review of it.\<close>

definition lambda_proposal :: Proposal where
  "lambda_proposal =
     \<lparr>Proposal.proposal_id = ''PROP-001'', Proposal.agent_id = ''ops-agent'', agent_tier = 3,
      proposal_type = COST_REDUCTION, title = ''Optimize Lambda memory'',
      Proposal.description = ''Reduce Lambda memory from 3GB to 1GB'',
      current_state = ''3GB memory, $250/month'', proposed_state = ''1GB memory, $125/month'',
      metrics = \<lparr>cost_savings_usd = 125.0, time_savings_hours = 0.0,
                 quality_improvement_pct = 0.0, risk_reduction_pct = 5.0,
                 compliance_score_delta = 0.0\<rparr>,
      affected_controls = [''CST-001''], implementation_cost_usd = 50.0,
      implementation_time_hours = 2.0, risk_assessment = ''Low - tested in dev'',
      submitted_at = 0, jira_cr_id = None\<rparr>"

definition lambda_review :: HumanReview where
  "lambda_review =
     \<lparr>review_id = ''REV-001'', reviewer_id = ''change-manager@company.com'',
      reviewer_role = ''Change Manager'', HumanReview.proposal_id = ''PROP-001'',
      status = APPROVED, review_start_time = 0, review_end_time = Some 600,
      review_duration_minutes = 10.0,
      comments = ''Verified the test results in dev and the rollback plan; approved.'',
      approval_signature = None, concerns_raised = [], questions_asked = 3,
      documents_reviewed = [''cloudwatch-metrics.pdf'', ''test-results.json'']\<rparr>"

text \<open>The same proposal at no cost, at a cost of one dollar, and with a negative
  implementation time.\<close>

definition free_proposal :: Proposal where
  "free_proposal = lambda_proposal\<lparr>implementation_cost_usd := 0\<rparr>"

definition cheap_proposal :: Proposal where
  "cheap_proposal = lambda_proposal\<lparr>implementation_cost_usd := 1\<rparr>"

definition negative_time_proposal :: Proposal where
  "negative_time_proposal = lambda_proposal\<lparr>implementation_time_hours := - 60\<rparr>"

text \<open>The all-zero metrics vector, and the proposal that claims it.\<close>

definition zero_metrics :: ImprovementMetrics where
  "zero_metrics =
     \<lparr>cost_savings_usd = 0, time_savings_hours = 0, quality_improvement_pct = 0,
      risk_reduction_pct = 0, compliance_score_delta = 0\<rparr>"

definition idle_proposal :: Proposal where
  "idle_proposal = lambda_proposal\<lparr>metrics := zero_metrics\<rparr>"

text \<open>A one-minute approval with a two-letter comment, no question and no document.\<close>

definition rushed_review :: HumanReview where
  "rushed_review =
     lambda_review\<lparr>review_duration_minutes := 1, comments := ''ok'', questions_asked := 0,
                    documents_reviewed := []\<rparr>"

text \<open>
  A proposal that claims 200 hours of time savings for half an hour of work, a history in
  which it is one proposal of three, and a proposal that claims 60000 dollars of savings.
\<close>

definition hype_proposal :: Proposal where
  "hype_proposal =
     lambda_proposal\<lparr>metrics := (metrics lambda_proposal)\<lparr>time_savings_hours := 200\<rparr>,
                      implementation_time_hours := 0.5\<rparr>"

definition hype_history :: "Proposal list" where
  "hype_history = [hype_proposal, lambda_proposal, lambda_proposal]"

definition grand_proposal :: Proposal where
  "grand_proposal =
     lambda_proposal\<lparr>metrics := (metrics lambda_proposal)\<lparr>cost_savings_usd := 60000\<rparr>\<rparr>"

section \<open>Facts about \<^verbatim>\<open>calculate_payoff\<close>\<close>

lemma foldl_bonus_step:
  "foldl (bonus_step ag act) b asgs = b + sum_list (map (assignment_bonus ag act) asgs)"
  by (induction asgs arbitrary: b) (auto simp: bonus_step_def assignment_bonus_def)

lemma payoff_formula:
  "payoff (calculate_payoff self ag act gs) =
     compliance_value act - cost act * cost_per_action ag - risk act * (1 - risk_tolerance ag)
       + sum_list (map (assignment_bonus ag act) (RACIGameValidator.raci_assignments self))"
  by (simp add: calculate_payoff_def Let_def foldl_bonus_step)

lemma calculate_payoff_state_free:
  "calculate_payoff self ag act gs = calculate_payoff self ag act gs'"
  by (simp add: calculate_payoff_def)

lemma bonus_no_match:
  "\<forall>asg \<in> set asgs. RACIAssignment.control_id asg \<noteq> Action.control_id act \<Longrightarrow>
   sum_list (map (assignment_bonus ag act) asgs) = 0"
  by (induction asgs) (auto simp: assignment_bonus_def bonus_step_def)

lemma bonus_distinct:
  "distinct (map RACIAssignment.control_id asgs) \<Longrightarrow>
   sum_list (map (assignment_bonus ag act) asgs) =
     (if list_ex (\<lambda>asg. RACIAssignment.control_id asg = Action.control_id act
                        \<and> responsible asg = Some ag) asgs then 2.0
      else if list_ex (\<lambda>asg. RACIAssignment.control_id asg = Action.control_id act
                        \<and> ag \<in> set (consulted asg)) asgs then 0.5 else 0)"
proof (induction asgs)
  case Nil
  then show ?case by simp
next
  case (Cons x xs)
  show ?case
  proof (cases "RACIAssignment.control_id x = Action.control_id act")
    case True
    with Cons.prems have "\<forall>asg \<in> set xs. RACIAssignment.control_id asg \<noteq> Action.control_id act"
      by (metis distinct.simps(2) image_eqI list.simps(9) set_map)
    then have rest: "sum_list (map (assignment_bonus ag act) xs) = 0"
      and none: "\<not> list_ex (\<lambda>asg. RACIAssignment.control_id asg = Action.control_id act
                        \<and> responsible asg = Some ag) xs"
        "\<not> list_ex (\<lambda>asg. RACIAssignment.control_id asg = Action.control_id act
                        \<and> ag \<in> set (consulted asg)) xs"
      by (auto simp: bonus_no_match list_ex_iff)
    have first: "assignment_bonus ag act x =
        (if responsible x = Some ag then 2.0 else if ag \<in> set (consulted x) then 0.5 else 0)"
      using True by (auto simp: assignment_bonus_def bonus_step_def)
    show ?thesis using True rest none first by simp
  next
    case False
    with Cons show ?thesis
      by (auto simp: assignment_bonus_def bonus_step_def)
  qed
qed

text \<open>
  Claim C4, as the code has it.  The payoff is compliance value minus cost times the
  agent's \<^verbatim>\<open>cost_per_action\<close> minus risk times one minus the agent's risk tolerance,
  plus a bonus; the bonus is the sum, over every assignment whose control is the
  action's control, of 2.0 where the agent is that assignment's responsible, else 0.5
  where the agent is among its consulted, else 0.  The game state does not enter the
  result.  When no two assignments name the same control the bonus is the claimed
  one: 2.0 for the responsible agent, else 0.5 for a consulted one, else 0.
\<close>

theorem calculate_payoff_sums_bonus:
  "payoff (calculate_payoff self ag act gs) =
     compliance_value act - cost act * cost_per_action ag - risk act * (1 - risk_tolerance ag)
       + sum_list (map (assignment_bonus ag act) (RACIGameValidator.raci_assignments self))
   \<and> calculate_payoff self ag act gs = calculate_payoff self ag act gs'
   \<and> (distinct (map RACIAssignment.control_id (RACIGameValidator.raci_assignments self)) \<longrightarrow>
        payoff (calculate_payoff self ag act gs) = claimed_payoff self ag act)"
proof (intro conjI impI)
  show "payoff (calculate_payoff self ag act gs) =
     compliance_value act - cost act * cost_per_action ag - risk act * (1 - risk_tolerance ag)
       + sum_list (map (assignment_bonus ag act) (RACIGameValidator.raci_assignments self))"
    by (rule payoff_formula)
  show "calculate_payoff self ag act gs = calculate_payoff self ag act gs'"
    by (rule calculate_payoff_state_free)
  assume "distinct (map RACIAssignment.control_id (RACIGameValidator.raci_assignments self))"
  then show "payoff (calculate_payoff self ag act gs) = claimed_payoff self ag act"
    by (simp add: payoff_formula bonus_distinct claimed_payoff_def claimed_bonus_def
        is_responsible_for_def is_consulted_for_def)
qed


theorem calculate_payoff_sums_bonus_witness:
  "distinct (map RACIAssignment.control_id (RACIGameValidator.raci_assignments main_validator))
   \<and> payoff (calculate_payoff main_validator security_agent app001_action
               (initial_game_state main_validator)) = 5.38
   \<and> claimed_payoff main_validator security_agent app001_action = 5.38"
proof -
  have d: "distinct (map RACIAssignment.control_id (RACIGameValidator.raci_assignments main_validator))"
    by (simp add: main_validator_def RACIGameValidator_init_def app001_assignment_def
        sec001_assignment_def au002_assignment_def)
  have v: "claimed_payoff main_validator security_agent app001_action = 5.38"
    by (simp add: claimed_payoff_def claimed_bonus_def is_responsible_for_def
        main_validator_def RACIGameValidator_init_def app001_assignment_def
        sec001_assignment_def au002_assignment_def app001_action_def security_agent_def)
  from calculate_payoff_sums_bonus [of main_validator security_agent app001_action
      "initial_game_state main_validator" "initial_game_state main_validator"] d v
  show ?thesis by simp
qed

text \<open>
  Claim C4 as stated fails where two assignments name the action's control: with the
  assignment of APP-001 listed twice the responsible agent's bonus is 4.0, not 2.0.
\<close>

theorem calculate_payoff_bonus_counterexample:
  "is_responsible_for doubled_validator security_agent (Action.control_id app001_action)
   \<and> payoff (calculate_payoff doubled_validator security_agent app001_action
               (initial_game_state doubled_validator)) = 7.38
   \<and> claimed_payoff doubled_validator security_agent app001_action = 5.38"
  by (simp add: payoff_formula assignment_bonus_def bonus_step_def claimed_payoff_def
      claimed_bonus_def is_responsible_for_def doubled_validator_def RACIGameValidator_init_def
      app001_assignment_def app001_action_def security_agent_def)


section \<open>Facts about \<^verbatim>\<open>validate_raci_constraints\<close>\<close>

lemma validate_step_ok:
  "responsible a \<noteq> None \<or> accountable a \<noteq> None \<Longrightarrow>
   validate_step vs a = Inr (vs @ assignment_violations a)"
  by (cases "responsible a"; cases "accountable a")
     (auto simp: validate_step_def assignment_violations_def Let_def rule4_def)

lemma validate_step_both_missing:
  "responsible a = None \<Longrightarrow> accountable a = None \<Longrightarrow> validate_step vs a = Inl AttributeError"
  by (simp add: validate_step_def Let_def)

lemma validate_loop_ok:
  "\<forall>a \<in> set asgs. responsible a \<noteq> None \<or> accountable a \<noteq> None \<Longrightarrow>
   validate_loop vs asgs = Inr (vs @ concat (map assignment_violations asgs))"
  by (induction asgs arbitrary: vs) (simp_all add: validate_step_ok)

lemma assignment_violations_empty:
  "assignment_violations a = [] \<longleftrightarrow> checked_rules_hold a"
  by (cases "responsible a"; cases "accountable a")
     (auto simp: assignment_violations_def checked_rules_hold_def rule4_def Let_def)

lemma validate_raci_constraints_eq:
  assumes "\<forall>a \<in> set (RACIGameValidator.raci_assignments self).
             responsible a \<noteq> None \<or> accountable a \<noteq> None"
  shows "validate_raci_constraints self =
           Inr (list_all checked_rules_hold (RACIGameValidator.raci_assignments self),
                concat (map assignment_violations (RACIGameValidator.raci_assignments self)))"
  using assms
  by (auto simp: validate_raci_constraints_def validate_loop_ok list_all_iff
      assignment_violations_empty)

text \<open>
  Claim C1, as the code has it.  For every list of assignments in which no assignment
  lacks both agents, \<^verbatim>\<open>validate_raci_constraints\<close> returns, and its flag is true if
  and only if every assignment has an accountable agent, a responsible agent, the two
  differ, and the accountable agent is Tier 3 or above (the accountable agent's tier is
  not compared with the responsible agent's).  The returned list holds, assignment by
  assignment and rule by rule, the message of every rule that is violated: nothing
  stops at the first violation.
\<close>

theorem validate_raci_constraints_collects_all:
  assumes "\<forall>a \<in> set (RACIGameValidator.raci_assignments self).
             responsible a \<noteq> None \<or> accountable a \<noteq> None"
  shows "\<exists>violations.
           validate_raci_constraints self =
             Inr (list_all checked_rules_hold (RACIGameValidator.raci_assignments self), violations)
           \<and> violations = concat (map assignment_violations (RACIGameValidator.raci_assignments self))
           \<and> (\<forall>a \<in> set (RACIGameValidator.raci_assignments self).
                 set (assignment_violations a) \<subseteq> set violations
                 \<and> (assignment_violations a = [] \<longleftrightarrow> checked_rules_hold a))"
  using validate_raci_constraints_eq [OF assms]
  by (auto simp: assignment_violations_empty)

theorem validate_raci_constraints_collects_all_witness:
  "list_all (\<lambda>a. responsible a \<noteq> None \<or> accountable a \<noteq> None)
     (RACIGameValidator.raci_assignments flawed_validator)
   \<and> validate_raci_constraints flawed_validator =
       Inr (False,
            [''G-02: Agent ops-agent cannot be both Responsible and Accountable'',
             ''MI-009: No Responsible agent assigned'',
             ''MI-009: Accountable agent dev-agent is Tier 2, requires Tier 3+''])"
proof -
  have h: "\<forall>a \<in> set (RACIGameValidator.raci_assignments flawed_validator).
             responsible a \<noteq> None \<or> accountable a \<noteq> None"
    by (simp add: flawed_validator_def RACIGameValidator_init_def)
  have v: "concat (map assignment_violations (RACIGameValidator.raci_assignments flawed_validator)) =
            [''G-02: Agent ops-agent cannot be both Responsible and Accountable'',
             ''MI-009: No Responsible agent assigned'',
             ''MI-009: Accountable agent dev-agent is Tier 2, requires Tier 3+'']"
    by (simp add: flawed_validator_def RACIGameValidator_init_def assignment_violations_def
        rule4_def ops_agent_def dev_agent_def)
  have c: "\<not> list_all checked_rules_hold (RACIGameValidator.raci_assignments flawed_validator)"
    by (simp add: flawed_validator_def RACIGameValidator_init_def checked_rules_hold_def)
  from validate_raci_constraints_collects_all [OF h] h v c show ?thesis
    by (simp add: list_all_iff)
qed

text \<open>
  Claim C1 as stated fails on the tier rule: with a Tier 4 responsible agent and a
  Tier 3 accountable agent the claimed rules are broken, yet the check passes with no
  violation.
\<close>

theorem validate_raci_constraints_tier_counterexample:
  "validate_raci_constraints inverted_validator = Inr (True, [])
   \<and> \<not> list_all claimed_rules_hold (RACIGameValidator.raci_assignments inverted_validator)"
  by (simp add: validate_raci_constraints_def validate_step_def rule4_def claimed_rules_hold_def
      inverted_validator_def RACIGameValidator_init_def architect_agent_def security_agent_def)

section \<open>Facts about \<^verbatim>\<open>find_best_response\<close> and \<^verbatim>\<open>stackelberg_equilibrium\<close>\<close>

lemma max_key_snoc:
  "max_key key x (xs @ [y]) = (if key y > key (max_key key x xs) then y else max_key key x xs)"
  by (simp add: max_key_def)

lemma max_key_first_max:
  "\<exists>pre post. x # xs = pre @ [max_key key x xs] @ post
     \<and> (\<forall>y \<in> set pre. key y < key (max_key key x xs))
     \<and> (\<forall>y \<in> set post. key y \<le> key (max_key key x xs))"
proof (induction xs rule: rev_induct)
  case Nil
  show ?case
    by (rule exI [of _ "[]"], rule exI [of _ "[]"]) (simp add: max_key_def)
next
  case (snoc y xs)
  then obtain pre post where d: "x # xs = pre @ [max_key key x xs] @ post"
    and lt: "\<forall>z \<in> set pre. key z < key (max_key key x xs)"
    and le: "\<forall>z \<in> set post. key z \<le> key (max_key key x xs)"
    by blast
  show ?case
  proof (cases "key y > key (max_key key x xs)")
    case True
    have "\<forall>z \<in> set (x # xs). key z < key y"
      unfolding d using lt le True by auto
    then show ?thesis
      unfolding max_key_snoc using True
      by (intro exI [of _ "x # xs"] exI [of _ "[]"]) simp
  next
    case False
    have "x # xs @ [y] = pre @ [max_key key x xs] @ (post @ [y])"
      using d by simp
    moreover have "\<forall>z \<in> set (post @ [y]). key z \<le> key (max_key key x xs)"
      using le False by auto
    ultimately show ?thesis
      unfolding max_key_snoc using False lt
      by (intro exI [of _ pre] exI [of _ "post @ [y]"]) simp
  qed
qed

lemma max_key_map:
  "max_key key (f x) (map f xs) = f (max_key (\<lambda>y. key (f y)) x xs)"
  by (induction xs rule: rev_induct) (simp_all add: max_key_def)

lemma action_calculate_payoff: "action (calculate_payoff self ag act gs) = act"
  by (simp add: calculate_payoff_def Let_def)

lemma find_best_response_eq:
  "find_best_response self ag (a # as) gs =
     (let b = max_key (payoff_of self gs ag) a as
      in if payoff_of self gs ag b > 0 then Some b else None)"
proof -
  have "max_key payoff (calculate_payoff self ag a gs)
          (map (\<lambda>act. calculate_payoff self ag act gs) as) =
        calculate_payoff self ag (max_key (payoff_of self gs ag) a as) gs"
    using max_key_map [of payoff "\<lambda>act. calculate_payoff self ag act gs" a as]
    by (simp add: payoff_of_def [abs_def])
  then show ?thesis
    by (simp add: find_best_response_def Let_def action_calculate_payoff payoff_of_def)
qed

lemma find_best_response_Some:
  assumes "find_best_response self ag acts gs = Some b"
  shows "\<exists>pre post. acts = pre @ [b] @ post
     \<and> (\<forall>y \<in> set pre. payoff_of self gs ag y < payoff_of self gs ag b)
     \<and> (\<forall>y \<in> set post. payoff_of self gs ag y \<le> payoff_of self gs ag b)
     \<and> payoff_of self gs ag b > 0"
proof (cases acts)
  case Nil
  with assms show ?thesis by (simp add: find_best_response_def)
next
  case (Cons a as)
  with assms have b: "b = max_key (payoff_of self gs ag) a as" and pos: "payoff_of self gs ag b > 0"
    by (auto simp: find_best_response_eq Let_def split: if_splits)
  from max_key_first_max [of a as "payoff_of self gs ag"] show ?thesis
    unfolding Cons b [symmetric] using pos by blast
qed

lemma find_best_response_None:
  "find_best_response self ag acts gs = None \<longleftrightarrow> (\<forall>y \<in> set acts. payoff_of self gs ag y \<le> 0)"
proof (cases acts)
  case Nil
  then show ?thesis by (simp add: find_best_response_def)
next
  case (Cons a as)
  let ?b = "max_key (payoff_of self gs ag) a as"
  from max_key_first_max [of a as "payoff_of self gs ag"]
  obtain pre post where d: "a # as = pre @ [?b] @ post"
    and lt: "\<forall>y \<in> set pre. payoff_of self gs ag y < payoff_of self gs ag ?b"
    and le: "\<forall>y \<in> set post. payoff_of self gs ag y \<le> payoff_of self gs ag ?b"
    by blast
  have mem: "?b \<in> set (a # as)" unfolding d by simp
  have ub: "\<forall>y \<in> set (a # as). payoff_of self gs ag y \<le> payoff_of self gs ag ?b"
    unfolding d using lt le by auto
  show ?thesis
  proof
    assume "find_best_response self ag acts gs = None"
    then have "payoff_of self gs ag ?b \<le> 0"
      unfolding Cons by (simp add: find_best_response_eq Let_def split: if_splits)
    with ub show "\<forall>y \<in> set acts. payoff_of self gs ag y \<le> 0"
      unfolding Cons by force
  next
    assume "\<forall>y \<in> set acts. payoff_of self gs ag y \<le> 0"
    with mem have "payoff_of self gs ag ?b \<le> 0" unfolding Cons by blast
    then show "find_best_response self ag acts gs = None"
      unfolding Cons by (simp add: find_best_response_eq Let_def)
  qed
qed

lemma find_best_response_state_free:
  "find_best_response self ag acts gs = find_best_response self ag acts gs'"
  by (simp add: find_best_response_def calculate_payoff_state_free [of self ag _ gs gs'])


lemma stackelberg_step_profile:
  "map_of (snd (stackelberg_step self aba (gs, prof) ag)) a =
     (if a = ag \<and> find_best_response self ag (dict_get aba ag []) gs0 \<noteq> None
      then find_best_response self ag (dict_get aba ag []) gs0
      else map_of prof a)"
  using find_best_response_state_free [of self ag "dict_get aba ag []" gs gs0]
  by (auto simp: stackelberg_step_def Let_def dict_set_def update_conv' split: option.splits)

lemma stackelberg_loop_Cons:
  "stackelberg_loop self aba st (ag # ags) =
     stackelberg_loop self aba (stackelberg_step self aba st ag) ags"
  by (simp add: stackelberg_loop_def)

lemma stackelberg_loop_profile:
  "map_of (snd (stackelberg_loop self aba (gs, prof) ags)) a =
     (if a \<in> set ags \<and> find_best_response self a (dict_get aba a []) gs0 \<noteq> None
      then find_best_response self a (dict_get aba a []) gs0
      else map_of prof a)"
proof (induction ags arbitrary: gs prof)
  case Nil
  show ?case by (simp add: stackelberg_loop_def)
next
  case (Cons ag ags)
  obtain gs' prof' where st: "stackelberg_step self aba (gs, prof) ag = (gs', prof')"
    by (cases "stackelberg_step self aba (gs, prof) ag")
  have p: "map_of prof' a =
     (if a = ag \<and> find_best_response self ag (dict_get aba ag []) gs0 \<noteq> None
      then find_best_response self ag (dict_get aba ag []) gs0
      else map_of prof a)"
    using stackelberg_step_profile [of self aba gs prof ag a gs0] st by simp
  show ?case
    unfolding stackelberg_loop_Cons st Cons.IH [of gs' prof'] p by auto
qed

lemma stackelberg_step_taken:
  "actions_taken (fst (stackelberg_step self aba (gs, prof) ag)) =
     actions_taken gs @ List.map_filter (chosen_move self aba gs0) [ag]"
  using find_best_response_state_free [of self ag "dict_get aba ag []" gs gs0]
  by (auto simp: stackelberg_step_def Let_def chosen_move_def split: option.splits)

lemma stackelberg_loop_taken:
  "actions_taken (fst (stackelberg_loop self aba (gs, prof) ags)) =
     actions_taken gs @ List.map_filter (chosen_move self aba gs0) ags"
proof (induction ags arbitrary: gs prof)
  case Nil
  show ?case by (simp add: stackelberg_loop_def)
next
  case (Cons ag ags)
  obtain gs' prof' where st: "stackelberg_step self aba (gs, prof) ag = (gs', prof')"
    by (cases "stackelberg_step self aba (gs, prof) ag")
  have t: "actions_taken gs' = actions_taken gs @ List.map_filter (chosen_move self aba gs0) [ag]"
    using stackelberg_step_taken [of self aba gs prof ag gs0] st by simp
  show ?case
    unfolding stackelberg_loop_Cons st Cons.IH [of gs' prof'] t
    by (simp split: option.splits)
qed

lemma stackelberg_step_profile_state_free:
  "snd (stackelberg_step self aba (gs, prof) ag) = snd (stackelberg_step self aba (gs', prof) ag)"
  using find_best_response_state_free [of self ag "dict_get aba ag []" gs gs']
  by (auto simp: stackelberg_step_def Let_def split: option.splits)

lemma stackelberg_loop_profile_state_free:
  "snd (stackelberg_loop self aba (gs, prof) ags) = snd (stackelberg_loop self aba (gs', prof) ags)"
proof (induction ags arbitrary: gs gs' prof)
  case Nil
  show ?case by (simp add: stackelberg_loop_def)
next
  case (Cons ag ags)
  obtain g1 p1 where s1: "stackelberg_step self aba (gs, prof) ag = (g1, p1)"
    by (cases "stackelberg_step self aba (gs, prof) ag")
  obtain g2 p2 where s2: "stackelberg_step self aba (gs', prof) ag = (g2, p2)"
    by (cases "stackelberg_step self aba (gs', prof) ag")
  have "p1 = p2"
    using stackelberg_step_profile_state_free [of self aba gs prof ag gs'] s1 s2 by simp
  then show ?case
    unfolding stackelberg_loop_Cons s1 s2 using Cons.IH [of g1 p1 g2] by simp
qed

lemma sorted_agents_descending:
  "sorted_wrt (\<lambda>a b. tier_value (tier a) \<ge> tier_value (tier b)) (sorted_agents ags)"
proof -
  have "sorted (map (\<lambda>a. - tier_value (tier a)) (sorted_agents ags))"
    unfolding sorted_agents_def by (rule sorted_sort_key)
  then show ?thesis
    by (simp add: sorted_map sorted_wrt_iff_nth_less)
qed

lemma sorted_agents_stable:
  "filter (\<lambda>a. tier a = t) (sorted_agents ags) = filter (\<lambda>a. tier a = t) ags"
proof -
  have inj: "\<And>a. (- tier_value (tier a) = - tier_value t) = (tier a = t)"
    by (case_tac "tier a"; cases t) simp_all
  from sort_key_stable [of "\<lambda>a. - tier_value (tier a)" "- tier_value t" ags]
  show ?thesis unfolding sorted_agents_def inj .
qed

lemma set_sorted_agents: "set (sorted_agents ags) = set ags"
  by (simp add: sorted_agents_def)

lemma security_actions:
  "get_agent_actions main_validator security_agent =
     [sec001_action, mi003_action]"
  by (simp add: get_agent_actions_def security_agent_def sec001_action_def mi003_action_def)

lemma security_lookup:
  "dict_get main_actions_by_agent security_agent [] = get_agent_actions main_validator security_agent"
  by (simp add: dict_get_def main_actions_by_agent_def main_agents_def architect_agent_def
      security_agent_def)

lemma security_payoffs:
  "payoff_of main_validator gs security_agent sec001_action = 5.38"
  "payoff_of main_validator gs security_agent mi003_action = 3.38"
  by (simp_all add: payoff_of_def payoff_formula assignment_bonus_def bonus_step_def
      main_validator_def RACIGameValidator_init_def app001_assignment_def sec001_assignment_def
      au002_assignment_def sec001_action_def mi003_action_def security_agent_def)

lemma security_best:
  "find_best_response main_validator security_agent
     (get_agent_actions main_validator security_agent) gs = Some sec001_action"
  unfolding security_actions find_best_response_eq
  by (simp add: max_key_def security_payoffs)

text \<open>
  Claim C2.  The solver visits the agents in tier-descending order, agents of one tier
  in their given order.  Each agent's move is the first-listed action of greatest payoff
  among its candidates, taken only when that payoff is positive; the moves are appended
  to \<^verbatim>\<open>actions_taken\<close> in the order of the visit; the profile maps every agent of
  the validator to its move and holds no entry for an agent without a positive-payoff
  candidate.  The profile does not depend on the game state the run starts from, so two
  runs on the same input give the same profile.
\<close>

theorem stackelberg_equilibrium_best_responses:
  "sorted_wrt (\<lambda>a b. tier_value (tier a) \<ge> tier_value (tier b))
     (sorted_agents (RACIGameValidator.agents self))
   \<and> filter (\<lambda>a. tier a = t) (sorted_agents (RACIGameValidator.agents self)) =
       filter (\<lambda>a. tier a = t) (RACIGameValidator.agents self)
   \<and> actions_taken (fst (stackelberg_run self aba)) =
       List.map_filter (chosen_move self aba (initial_game_state self))
         (sorted_agents (RACIGameValidator.agents self))
   \<and> map_of (stackelberg_equilibrium self aba) a =
       (if a \<in> set (RACIGameValidator.agents self)
        then find_best_response self a (dict_get aba a []) (initial_game_state self)
        else None)
   \<and> (\<forall>b. find_best_response self a acts gs = Some b \<longrightarrow>
         (\<exists>pre post. acts = pre @ [b] @ post
            \<and> (\<forall>y \<in> set pre. payoff_of self gs a y < payoff_of self gs a b)
            \<and> (\<forall>y \<in> set post. payoff_of self gs a y \<le> payoff_of self gs a b)
            \<and> payoff_of self gs a b > 0))
   \<and> (find_best_response self a acts gs = None
        \<longleftrightarrow> (\<forall>y \<in> set acts. payoff_of self gs a y \<le> 0))
   \<and> snd (stackelberg_loop self aba (gs1, prof) ags) =
       snd (stackelberg_loop self aba (gs2, prof) ags)"
proof (intro conjI allI impI)
  show "sorted_wrt (\<lambda>a b. tier_value (tier a) \<ge> tier_value (tier b))
     (sorted_agents (RACIGameValidator.agents self))"
    by (rule sorted_agents_descending)
  show "filter (\<lambda>a. tier a = t) (sorted_agents (RACIGameValidator.agents self)) =
       filter (\<lambda>a. tier a = t) (RACIGameValidator.agents self)"
    by (rule sorted_agents_stable)
  show "actions_taken (fst (stackelberg_run self aba)) =
       List.map_filter (chosen_move self aba (initial_game_state self))
         (sorted_agents (RACIGameValidator.agents self))"
    unfolding stackelberg_run_def
    by (simp add: stackelberg_loop_taken [of _ _ _ _ _ "initial_game_state self"]
        initial_game_state_def)
  show "map_of (stackelberg_equilibrium self aba) a =
       (if a \<in> set (RACIGameValidator.agents self)
        then find_best_response self a (dict_get aba a []) (initial_game_state self)
        else None)"
    unfolding stackelberg_equilibrium_def stackelberg_run_def
    by (simp add: stackelberg_loop_profile [of _ _ _ _ _ _ "initial_game_state self"]
        set_sorted_agents)
  show "find_best_response self a acts gs = None
        \<longleftrightarrow> (\<forall>y \<in> set acts. payoff_of self gs a y \<le> 0)"
    by (rule find_best_response_None)
  show "snd (stackelberg_loop self aba (gs1, prof) ags) =
       snd (stackelberg_loop self aba (gs2, prof) ags)"
    by (rule stackelberg_loop_profile_state_free)
next
  fix b
  assume "find_best_response self a acts gs = Some b"
  then show "\<exists>pre post. acts = pre @ [b] @ post
            \<and> (\<forall>y \<in> set pre. payoff_of self gs a y < payoff_of self gs a b)
            \<and> (\<forall>y \<in> set post. payoff_of self gs a y \<le> payoff_of self gs a b)
            \<and> payoff_of self gs a b > 0"
    by (rule find_best_response_Some)
qed

theorem stackelberg_equilibrium_best_responses_witness:
  "security_agent \<in> set (RACIGameValidator.agents main_validator)
   \<and> find_best_response main_validator security_agent
        (get_agent_actions main_validator security_agent) (initial_game_state main_validator)
       = Some sec001_action
   \<and> map_of (stackelberg_equilibrium main_validator main_actions_by_agent) security_agent
       = Some sec001_action
   \<and> (\<exists>pre post. get_agent_actions main_validator security_agent = pre @ [sec001_action] @ post
         \<and> (\<forall>y \<in> set pre. payoff_of main_validator (initial_game_state main_validator)
                             security_agent y
                           < payoff_of main_validator (initial_game_state main_validator)
                               security_agent sec001_action)
         \<and> (\<forall>y \<in> set post. payoff_of main_validator (initial_game_state main_validator)
                              security_agent y
                            \<le> payoff_of main_validator (initial_game_state main_validator)
                                security_agent sec001_action)
         \<and> payoff_of main_validator (initial_game_state main_validator) security_agent
             sec001_action > 0)
   \<and> \<not> (\<forall>y \<in> set (get_agent_actions main_validator security_agent).
           payoff_of main_validator (initial_game_state main_validator) security_agent y \<le> 0)"
proof -
  have m: "security_agent \<in> set (RACIGameValidator.agents main_validator)"
    by (simp add: main_validator_def RACIGameValidator_init_def main_agents_def)
  note b = security_best [of "initial_game_state main_validator"]
  from stackelberg_equilibrium_best_responses
         [where self = main_validator and t = TIER3_OPERATIONS
            and aba = main_actions_by_agent and a = security_agent
            and acts = "get_agent_actions main_validator security_agent"
            and gs = "initial_game_state main_validator"
            and ?gs1.0 = "initial_game_state main_validator"
            and ?gs2.0 = "initial_game_state main_validator"
            and prof = "[]" and ags = main_agents]
       m b
  show ?thesis by (simp add: security_lookup)
qed

section \<open>Facts about \<^verbatim>\<open>check_nash_equilibrium\<close>\<close>

lemma nash_alt_loop:
  "foldl (nash_alt_step self gs ag cur (calculate_payoff self ag cur gs)) vs alts =
     vs @ map (\<lambda>alt. deviation_message ag cur (calculate_payoff self ag cur gs) alt
                       (calculate_payoff self ag alt gs))
            (filter (\<lambda>alt. payoff_of self gs ag alt > payoff_of self gs ag cur + 0.01) alts)"
  by (induction alts arbitrary: vs) (auto simp: nash_alt_step_def Let_def payoff_of_def)

lemma nash_agent_step_eq:
  "nash_agent_step self gs vs item = vs @ agent_deviations self gs item"
  by (simp add: nash_agent_step_def Let_def nash_alt_loop agent_deviations_def
      improving_alternatives_def)

lemma nash_agent_loop:
  "foldl (nash_agent_step self gs) vs profile = vs @ concat (map (agent_deviations self gs) profile)"
  by (induction profile arbitrary: vs) (simp_all add: nash_agent_step_eq)

lemma check_nash_equilibrium_eq:
  "check_nash_equilibrium self gs profile =
     (concat (map (agent_deviations self gs) profile) = [],
      concat (map (agent_deviations self gs) profile))"
  by (simp add: check_nash_equilibrium_def Let_def nash_agent_loop)

lemma agent_deviations_nonempty:
  "agent_deviations self gs item \<noteq> [] \<longleftrightarrow>
     (\<exists>alt \<in> set (get_agent_actions self (fst item)).
        alt \<noteq> snd item
        \<and> payoff_of self gs (fst item) alt > payoff_of self gs (fst item) (snd item) + 0.01)"
proof -
  have "\<And>alt. payoff_of self gs (fst item) alt > payoff_of self gs (fst item) (snd item) + 0.01
          \<Longrightarrow> alt \<noteq> snd item"
    by auto
  then show ?thesis
    by (auto simp: agent_deviations_def improving_alternatives_def filter_empty_conv)
qed

lemma agent_deviations_sound:
  "CanImprove aid cid cp altid ap \<in> set (agent_deviations self gs item) \<Longrightarrow> ap > cp + 0.01"
  by (auto simp: agent_deviations_def improving_alternatives_def deviation_message_def payoff_of_def)

lemma check_nash_sound:
  "CanImprove aid cid cp altid ap \<in> set (snd (check_nash_equilibrium self gs profile))
   \<Longrightarrow> ap > cp + 0.01"
  by (auto simp: check_nash_equilibrium_eq dest: agent_deviations_sound)

lemma check_nash_flag:
  "fst (check_nash_equilibrium self gs profile) \<longleftrightarrow>
     (\<forall>item \<in> set profile. \<forall>alt \<in> set (get_agent_actions self (fst item)).
        payoff_of self gs (fst item) alt \<le> payoff_of self gs (fst item) (snd item) + 0.01)"
  by (auto simp: check_nash_equilibrium_eq agent_deviations_def improving_alternatives_def
      filter_empty_conv not_less)

text \<open>
  Claim C3.  The verifier returns, profile entry by profile entry and candidate by
  candidate, one deviation for every candidate action of the agent whose payoff exceeds
  the payoff of the agent's current action by more than 0.01, and nothing else: an
  agent has a deviation if and only if such an alternative (necessarily different from
  the current action) exists, no deviation names an alternative whose payoff is at most
  the current payoff plus 0.01, every agent and every candidate is looked at, and the
  flag is true exactly when the list of deviations is empty.
\<close>

theorem check_nash_equilibrium_complete:
  "check_nash_equilibrium self gs profile =
     (concat (map (agent_deviations self gs) profile) = [],
      concat (map (agent_deviations self gs) profile))
   \<and> (\<forall>item \<in> set profile.
         (agent_deviations self gs item \<noteq> [] \<longleftrightarrow>
            (\<exists>alt \<in> set (get_agent_actions self (fst item)).
               alt \<noteq> snd item
               \<and> payoff_of self gs (fst item) alt
                   > payoff_of self gs (fst item) (snd item) + 0.01))
         \<and> length (agent_deviations self gs item) =
             length (filter (\<lambda>alt. payoff_of self gs (fst item) alt
                                      > payoff_of self gs (fst item) (snd item) + 0.01)
                       (get_agent_actions self (fst item))))
   \<and> (\<forall>aid cid cp altid ap.
         CanImprove aid cid cp altid ap \<in> set (snd (check_nash_equilibrium self gs profile))
         \<longrightarrow> ap > cp + 0.01)
   \<and> (fst (check_nash_equilibrium self gs profile) \<longleftrightarrow>
        snd (check_nash_equilibrium self gs profile) = [])
   \<and> (fst (check_nash_equilibrium self gs profile) \<longleftrightarrow>
        (\<forall>item \<in> set profile. \<forall>alt \<in> set (get_agent_actions self (fst item)).
           payoff_of self gs (fst item) alt \<le> payoff_of self gs (fst item) (snd item) + 0.01))"
proof (intro conjI ballI allI impI)
  show "check_nash_equilibrium self gs profile =
     (concat (map (agent_deviations self gs) profile) = [],
      concat (map (agent_deviations self gs) profile))"
    by (rule check_nash_equilibrium_eq)
  show "fst (check_nash_equilibrium self gs profile) \<longleftrightarrow>
        snd (check_nash_equilibrium self gs profile) = []"
    by (simp add: check_nash_equilibrium_eq)
  show "fst (check_nash_equilibrium self gs profile) \<longleftrightarrow>
        (\<forall>item \<in> set profile. \<forall>alt \<in> set (get_agent_actions self (fst item)).
           payoff_of self gs (fst item) alt \<le> payoff_of self gs (fst item) (snd item) + 0.01)"
    by (rule check_nash_flag)
next
  fix item
  show "agent_deviations self gs item \<noteq> [] \<longleftrightarrow>
            (\<exists>alt \<in> set (get_agent_actions self (fst item)).
               alt \<noteq> snd item
               \<and> payoff_of self gs (fst item) alt
                   > payoff_of self gs (fst item) (snd item) + 0.01)"
    by (rule agent_deviations_nonempty)
  show "length (agent_deviations self gs item) =
             length (filter (\<lambda>alt. payoff_of self gs (fst item) alt
                                      > payoff_of self gs (fst item) (snd item) + 0.01)
                       (get_agent_actions self (fst item)))"
    by (simp add: agent_deviations_def improving_alternatives_def)
next
  fix aid cid cp altid ap
  assume "CanImprove aid cid cp altid ap \<in> set (snd (check_nash_equilibrium self gs profile))"
  then show "ap > cp + 0.01" by (rule check_nash_sound)
qed

theorem check_nash_equilibrium_complete_witness:
  "(security_agent, mi003_action) \<in> set dominated_profile
   \<and> sec001_action \<in> set (get_agent_actions main_validator security_agent)
   \<and> sec001_action \<noteq> mi003_action
   \<and> payoff_of main_validator (initial_game_state main_validator) security_agent sec001_action
       > payoff_of main_validator (initial_game_state main_validator) security_agent
           mi003_action + 0.01
   \<and> agent_deviations main_validator (initial_game_state main_validator)
        (security_agent, mi003_action) \<noteq> []
   \<and> check_nash_equilibrium main_validator (initial_game_state main_validator) dominated_profile =
       (False, [CanImprove ''security-agent'' ''security-agent_MI-003_execute'' 3.38
                  ''security-agent_SEC-001_execute'' 5.38])"
proof -
  have m: "(security_agent, mi003_action) \<in> set dominated_profile"
    by (simp add: dominated_profile_def)
  have n: "sec001_action \<noteq> mi003_action"
    by (simp add: sec001_action_def mi003_action_def)
  have ids: "Agent.agent_id security_agent = ''security-agent''"
    "action_id mi003_action = ''security-agent_MI-003_execute''"
    "action_id sec001_action = ''security-agent_SEC-001_execute''"
    by (simp_all add: security_agent_def sec001_action_def mi003_action_def)
  have d: "agent_deviations main_validator (initial_game_state main_validator)
             (security_agent, mi003_action) =
           [CanImprove ''security-agent'' ''security-agent_MI-003_execute'' 3.38
              ''security-agent_SEC-001_execute'' 5.38]"
    by (simp add: agent_deviations_def improving_alternatives_def security_actions
        security_payoffs deviation_message_def payoff_of_def [symmetric] ids)
  from check_nash_equilibrium_complete
         [where self = main_validator and gs = "initial_game_state main_validator"
            and profile = dominated_profile]
       m n d security_payoffs [of "initial_game_state main_validator"]
  show ?thesis by (simp add: dominated_profile_def security_actions)
qed

section \<open>Facts about \<^verbatim>\<open>roi\<close> and \<^verbatim>\<open>validate_pareto_improvement\<close>\<close>

lemma is_pareto_improvement_iff:
  "is_pareto_improvement m \<longleftrightarrow>
     (cost_savings_usd m \<ge> 0 \<and> time_savings_hours m \<ge> 0 \<and> quality_improvement_pct m \<ge> 0
        \<and> risk_reduction_pct m \<ge> 0 \<and> compliance_score_delta m \<ge> 0)
     \<and> (cost_savings_usd m > 0 \<or> time_savings_hours m > 0 \<or> quality_improvement_pct m > 0
        \<or> risk_reduction_pct m > 0 \<or> compliance_score_delta m > 0)"
  by (simp add: is_pareto_improvement_def Let_def)

lemma roi_returns:
  "roi p = Inr (if implementation_cost_usd p = 0
                then (if total_value (metrics p) > 0 then Infinity else Finite 0)
                else Finite (total_value (metrics p) / implementation_cost_usd p))"
  by (simp add: roi_def py_truediv_def)

lemma validate_pareto_improvement_eq:
  "roi p = Inr r \<Longrightarrow>
   validate_pareto_improvement p =
     Inr (is_pareto_improvement (metrics p) \<and> net_benefit p > 0 \<and> \<not> float_less r 1.2,
          (if \<not> is_pareto_improvement (metrics p) then [NotParetoImprovement] else [])
          @ (if net_benefit p \<le> 0
             then [NegativeNetBenefit (net_benefit p) (total_value (metrics p))
                     (implementation_cost_usd p)] else [])
          @ (if float_less r 1.2 then [RoiTooLow r] else []))"
  by (simp add: validate_pareto_improvement_def Let_def not_le)

text \<open>
  Claim C5.  A metrics vector is a Pareto improvement if and only if all five deltas
  are non-negative and at least one is positive, so the all-zero vector is not one.
  \<^verbatim>\<open>validate_pareto_improvement\<close> returns for every proposal; its flag is false
  exactly when the metrics are not a Pareto improvement, or the net benefit is at most
  zero, or the return on investment is below 1.2; and the issue list holds one issue
  for each of the three conditions that fails, in that order.
\<close>

theorem validate_pareto_improvement_reports_all:
  "(is_pareto_improvement m \<longleftrightarrow>
      (cost_savings_usd m \<ge> 0 \<and> time_savings_hours m \<ge> 0 \<and> quality_improvement_pct m \<ge> 0
         \<and> risk_reduction_pct m \<ge> 0 \<and> compliance_score_delta m \<ge> 0)
      \<and> (cost_savings_usd m > 0 \<or> time_savings_hours m > 0 \<or> quality_improvement_pct m > 0
         \<or> risk_reduction_pct m > 0 \<or> compliance_score_delta m > 0))
   \<and> (cost_savings_usd m = 0 \<and> time_savings_hours m = 0 \<and> quality_improvement_pct m = 0
         \<and> risk_reduction_pct m = 0 \<and> compliance_score_delta m = 0
       \<longrightarrow> \<not> is_pareto_improvement m)
   \<and> (\<exists>r ok issues.
         roi p = Inr r
         \<and> validate_pareto_improvement p = Inr (ok, issues)
         \<and> (\<not> ok \<longleftrightarrow>
              \<not> is_pareto_improvement (metrics p) \<or> net_benefit p \<le> 0 \<or> float_less r 1.2)
         \<and> issues =
             (if \<not> is_pareto_improvement (metrics p) then [NotParetoImprovement] else [])
             @ (if net_benefit p \<le> 0
                then [NegativeNetBenefit (net_benefit p) (total_value (metrics p))
                        (implementation_cost_usd p)] else [])
             @ (if float_less r 1.2 then [RoiTooLow r] else []))"
proof (intro conjI impI)
  show "is_pareto_improvement m \<longleftrightarrow>
      (cost_savings_usd m \<ge> 0 \<and> time_savings_hours m \<ge> 0 \<and> quality_improvement_pct m \<ge> 0
         \<and> risk_reduction_pct m \<ge> 0 \<and> compliance_score_delta m \<ge> 0)
      \<and> (cost_savings_usd m > 0 \<or> time_savings_hours m > 0 \<or> quality_improvement_pct m > 0
         \<or> risk_reduction_pct m > 0 \<or> compliance_score_delta m > 0)"
    by (rule is_pareto_improvement_iff)
next
  assume "cost_savings_usd m = 0 \<and> time_savings_hours m = 0 \<and> quality_improvement_pct m = 0
         \<and> risk_reduction_pct m = 0 \<and> compliance_score_delta m = 0"
  then show "\<not> is_pareto_improvement m"
    by (simp add: is_pareto_improvement_iff)
next
  obtain r where r: "roi p = Inr r"
    using roi_returns [of p] by blast
  show "\<exists>r ok issues.
         roi p = Inr r
         \<and> validate_pareto_improvement p = Inr (ok, issues)
         \<and> (\<not> ok \<longleftrightarrow>
              \<not> is_pareto_improvement (metrics p) \<or> net_benefit p \<le> 0 \<or> float_less r 1.2)
         \<and> issues =
             (if \<not> is_pareto_improvement (metrics p) then [NotParetoImprovement] else [])
             @ (if net_benefit p \<le> 0
                then [NegativeNetBenefit (net_benefit p) (total_value (metrics p))
                        (implementation_cost_usd p)] else [])
             @ (if float_less r 1.2 then [RoiTooLow r] else [])"
    using r validate_pareto_improvement_eq [OF r] by (auto simp: not_less)
qed

theorem validate_pareto_improvement_reports_all_witness:
  "cost_savings_usd zero_metrics = 0 \<and> time_savings_hours zero_metrics = 0
   \<and> quality_improvement_pct zero_metrics = 0 \<and> risk_reduction_pct zero_metrics = 0
   \<and> compliance_score_delta zero_metrics = 0
   \<and> \<not> is_pareto_improvement zero_metrics
   \<and> validate_pareto_improvement idle_proposal =
       Inr (False, [NotParetoImprovement, NegativeNetBenefit (- 50) 0 50, RoiTooLow (Finite 0)])"
proof -
  have z: "cost_savings_usd zero_metrics = 0 \<and> time_savings_hours zero_metrics = 0
     \<and> quality_improvement_pct zero_metrics = 0 \<and> risk_reduction_pct zero_metrics = 0
     \<and> compliance_score_delta zero_metrics = 0"
    by (simp add: zero_metrics_def)
  have m: "metrics idle_proposal = zero_metrics" "implementation_cost_usd idle_proposal = 50"
    by (simp_all add: idle_proposal_def lambda_proposal_def)
  have t: "total_value zero_metrics = 0"
    by (simp add: total_value_def zero_metrics_def)
  have r: "roi idle_proposal = Inr (Finite 0)"
    by (simp add: roi_returns m t)
  from validate_pareto_improvement_reports_all [of zero_metrics idle_proposal] z r
  show ?thesis by (auto simp: m t net_benefit_def)
qed

text \<open>
  Claim C10.  With an implementation cost of zero \<^verbatim>\<open>roi\<close> returns infinity when the
  total value is positive and 0.0 otherwise, without dividing; with any other cost it
  returns the quotient.  So \<^verbatim>\<open>roi\<close>, and \<^verbatim>\<open>validate_pareto_improvement\<close> which
  calls it, return a value for every proposal and never raise
  \<^verbatim>\<open>ZeroDivisionError\<close>.
\<close>

theorem roi_never_divides_by_zero:
  "(implementation_cost_usd p = 0 \<longrightarrow>
      roi p = Inr (if total_value (metrics p) > 0 then Infinity else Finite 0.0))
   \<and> (implementation_cost_usd p \<noteq> 0 \<longrightarrow>
      roi p = Inr (Finite (total_value (metrics p) / implementation_cost_usd p)))
   \<and> (\<exists>r. roi p = Inr r)
   \<and> roi p \<noteq> Inl ZeroDivisionError
   \<and> (\<exists>res. validate_pareto_improvement p = Inr res)
   \<and> validate_pareto_improvement p \<noteq> Inl ZeroDivisionError"
proof -
  obtain r where r: "roi p = Inr r"
    using roi_returns [of p] by blast
  show ?thesis
    using r validate_pareto_improvement_eq [OF r] by (auto simp: roi_returns)
qed

theorem roi_never_divides_by_zero_witness:
  "implementation_cost_usd free_proposal = 0
   \<and> total_value (metrics free_proposal) > 0
   \<and> roi free_proposal = Inr Infinity
   \<and> validate_pareto_improvement free_proposal = Inr (True, [])"
proof -
  have c: "implementation_cost_usd free_proposal = 0"
    by (simp add: free_proposal_def)
  have t: "total_value (metrics free_proposal) = 2625"
    by (simp add: free_proposal_def lambda_proposal_def total_value_def)
  have r: "roi free_proposal = Inr Infinity"
    using roi_never_divides_by_zero [of free_proposal] c t by simp
  have p: "is_pareto_improvement (metrics free_proposal)"
    by (simp add: is_pareto_improvement_iff free_proposal_def lambda_proposal_def)
  show ?thesis
    using c t r p validate_pareto_improvement_eq [OF r] by (simp add: net_benefit_def)
qed

section \<open>Facts about \<^verbatim>\<open>validate_truthful_reporting\<close>\<close>

lemma validate_truthful_reporting_empty:
  "validate_truthful_reporting p [] = (0.9, [NewAgentLimitedHistory])"
  by (simp add: validate_truthful_reporting_def)

lemma length_cost_errors: "length (cost_errors h) = length (filter underestimated_cost h)"
  by (simp add: cost_errors_def underestimated_cost_def [abs_def])

lemma length_time_errors: "length (time_errors h) = length (filter overestimated_benefit h)"
  by (simp add: time_errors_def overestimated_benefit_def [abs_def])

lemma cost_test:
  "(real (length (filter underestimated_cost h)) > real (length h) * 0.3) = cost_pattern h"
  unfolding cost_pattern_def by (simp only: mult.commute [of "real (length h)" "0.3"])

lemma time_test:
  "(real (length (filter overestimated_benefit h)) > real (length h) * 0.3) = time_pattern h"
  unfolding time_pattern_def by (simp only: mult.commute [of "real (length h)" "0.3"])

lemma validate_truthful_reporting_unfold:
  "h \<noteq> [] \<Longrightarrow>
   validate_truthful_reporting p h =
     (let s1 = (if cost_pattern h
                then (1.0 - 0.2,
                      [UnderestimatesCosts (length (filter underestimated_cost h)) (length h)])
                else (1.0, []));
          s2 = (if time_pattern h
                then (fst s1 - 0.2,
                      snd s1 @ [OverestimatesBenefits (length (filter overestimated_benefit h))
                                  (length h)])
                else s1);
          s3 = (if red_flag p
                then (fst s2 - 0.1,
                      snd s2 @ [DisproportionateBenefits (total_value (metrics p))
                                  (implementation_cost_usd p)])
                else s2)
      in (max (fst s3) 0.0, snd s3))"
  unfolding validate_truthful_reporting_def Let_def length_cost_errors length_time_errors
  unfolding cost_test time_test red_flag_def
  by (rule if_not_P)

lemma validate_truthful_reporting_eq:
  "h \<noteq> [] \<Longrightarrow>
   validate_truthful_reporting p h =
     (max 0 (1 - (if cost_pattern h then 0.2 else 0) - (if time_pattern h then 0.2 else 0)
               - (if red_flag p then 0.1 else 0)),
      (if cost_pattern h
       then [UnderestimatesCosts (length (filter underestimated_cost h)) (length h)] else [])
      @ (if time_pattern h
         then [OverestimatesBenefits (length (filter overestimated_benefit h)) (length h)]
         else [])
      @ (if red_flag p
         then [DisproportionateBenefits (total_value (metrics p)) (implementation_cost_usd p)]
         else []))"
  by (cases "cost_pattern h"; cases "time_pattern h"; cases "red_flag p")
     (simp_all add: validate_truthful_reporting_unfold Let_def)

lemma validate_truthful_reporting_bounds:
  "0 \<le> fst (validate_truthful_reporting p h) \<and> fst (validate_truthful_reporting p h) \<le> 1"
proof (cases "h = []")
  case True
  then show ?thesis by (simp add: validate_truthful_reporting_empty)
next
  case False
  then show ?thesis
    by (cases "cost_pattern h"; cases "time_pattern h"; cases "red_flag p")
       (simp_all add: validate_truthful_reporting_eq)
qed

lemma red_flag_implies_hundredfold:
  "red_flag p \<Longrightarrow> total_value (metrics p) > 100 * implementation_cost_usd p"
  by (simp add: red_flag_def)

lemma cheap_values:
  "total_value (metrics cheap_proposal) = 2625" "implementation_cost_usd cheap_proposal = 1"
  "total_value (metrics lambda_proposal) = 2625" "implementation_cost_usd lambda_proposal = 50"
  "implementation_time_hours lambda_proposal = 2"
  by (simp_all add: cheap_proposal_def lambda_proposal_def total_value_def)

lemma hype_values:
  "total_value (metrics hype_proposal) = 17625" "implementation_cost_usd hype_proposal = 50"
  "implementation_time_hours hype_proposal = 0.5"
  "time_savings_hours (metrics hype_proposal) = 200"
  "total_value (metrics grand_proposal) = 62500" "implementation_cost_usd grand_proposal = 50"
  by (simp_all add: hype_proposal_def grand_proposal_def lambda_proposal_def total_value_def)

lemma sample_patterns:
  "\<not> underestimated_cost lambda_proposal" "\<not> overestimated_benefit lambda_proposal"
  "underestimated_cost hype_proposal" "overestimated_benefit hype_proposal"
  by (simp_all add: underestimated_cost_def overestimated_benefit_def cheap_values hype_values)

lemma clean_history:
  "\<not> cost_pattern [lambda_proposal]" "\<not> time_pattern [lambda_proposal]"
  by (simp_all add: cost_pattern_def time_pattern_def sample_patterns)

lemma hype_history_patterns:
  "cost_pattern hype_history" "time_pattern hype_history"
  "length (filter underestimated_cost hype_history) = 1"
  "length (filter overestimated_benefit hype_history) = 1"
  "length hype_history = 3"
  by (simp_all add: cost_pattern_def time_pattern_def hype_history_def sample_patterns)

lemma cheap_score:
  "fst (validate_truthful_reporting cheap_proposal [lambda_proposal]) = 1"
  by (simp add: validate_truthful_reporting_eq clean_history red_flag_def cheap_values)

lemma cheap_claimed:
  "claimed_truthfulness_score cheap_proposal [lambda_proposal] = 0.9"
  by (simp add: claimed_truthfulness_score_def clean_history cheap_values)

text \<open>
  Claim C6, as the code has it.  With an empty history the score is 0.9.  Otherwise it
  starts from 1.0, loses 0.2 when more than 30% of the past proposals claim a total
  value above 10000 at a cost below 100 (underestimated cost), loses 0.2 when more than
  30% of them claim more than 100 hours of time savings for less than one hour of
  implementation (overestimated benefit), loses a further 0.1 when the current
  proposal's total value is above 50000 while its implementation cost is below 500, and
  is floored at 0.0; each deduction made comes with its warning, in that order.  The
  score always lies between 0 and 1.
\<close>

theorem validate_truthful_reporting_score_rule:
  "validate_truthful_reporting p [] = (0.9, [NewAgentLimitedHistory])
   \<and> (h \<noteq> [] \<longrightarrow>
        validate_truthful_reporting p h =
          (max 0 (1 - (if cost_pattern h then 0.2 else 0) - (if time_pattern h then 0.2 else 0)
                    - (if red_flag p then 0.1 else 0)),
           (if cost_pattern h
            then [UnderestimatesCosts (length (filter underestimated_cost h)) (length h)]
            else [])
           @ (if time_pattern h
              then [OverestimatesBenefits (length (filter overestimated_benefit h)) (length h)]
              else [])
           @ (if red_flag p
              then [DisproportionateBenefits (total_value (metrics p))
                      (implementation_cost_usd p)]
              else [])))
   \<and> 0 \<le> fst (validate_truthful_reporting p h)
   \<and> fst (validate_truthful_reporting p h) \<le> 1"
proof (intro conjI impI)
  show "validate_truthful_reporting p [] = (0.9, [NewAgentLimitedHistory])"
    by (rule validate_truthful_reporting_empty)
  show "0 \<le> fst (validate_truthful_reporting p h)"
    using validate_truthful_reporting_bounds [of p h] by (rule conjunct1)
  show "fst (validate_truthful_reporting p h) \<le> 1"
    using validate_truthful_reporting_bounds [of p h] by (rule conjunct2)
next
  assume "h \<noteq> []"
  then show "validate_truthful_reporting p h =
          (max 0 (1 - (if cost_pattern h then 0.2 else 0) - (if time_pattern h then 0.2 else 0)
                    - (if red_flag p then 0.1 else 0)),
           (if cost_pattern h
            then [UnderestimatesCosts (length (filter underestimated_cost h)) (length h)]
            else [])
           @ (if time_pattern h
              then [OverestimatesBenefits (length (filter overestimated_benefit h)) (length h)]
              else [])
           @ (if red_flag p
              then [DisproportionateBenefits (total_value (metrics p))
                      (implementation_cost_usd p)]
              else []))"
    by (rule validate_truthful_reporting_eq)
qed

theorem validate_truthful_reporting_score_rule_witness:
  "hype_history \<noteq> []
   \<and> cost_pattern hype_history \<and> time_pattern hype_history \<and> red_flag grand_proposal
   \<and> validate_truthful_reporting grand_proposal hype_history =
       (0.5, [UnderestimatesCosts 1 3, OverestimatesBenefits 1 3,
              DisproportionateBenefits 62500 50])
   \<and> \<not> cost_pattern [lambda_proposal] \<and> \<not> time_pattern [lambda_proposal]
   \<and> \<not> red_flag cheap_proposal
   \<and> validate_truthful_reporting cheap_proposal [lambda_proposal] = (1, [])"
proof -
  have n: "hype_history \<noteq> []" "[lambda_proposal] \<noteq> []"
    by (simp_all add: hype_history_def)
  have r: "red_flag grand_proposal" "\<not> red_flag cheap_proposal"
    by (simp_all add: red_flag_def hype_values cheap_values)
  from validate_truthful_reporting_score_rule [of grand_proposal hype_history] n(1)
  have "validate_truthful_reporting grand_proposal hype_history =
          (max 0 (1 - (if cost_pattern hype_history then 0.2 else 0)
                    - (if time_pattern hype_history then 0.2 else 0)
                    - (if red_flag grand_proposal then 0.1 else 0)),
           (if cost_pattern hype_history
            then [UnderestimatesCosts (length (filter underestimated_cost hype_history))
                    (length hype_history)]
            else [])
           @ (if time_pattern hype_history
              then [OverestimatesBenefits (length (filter overestimated_benefit hype_history))
                      (length hype_history)]
              else [])
           @ (if red_flag grand_proposal
              then [DisproportionateBenefits (total_value (metrics grand_proposal))
                      (implementation_cost_usd grand_proposal)]
              else []))"
    by blast
  then have g: "validate_truthful_reporting grand_proposal hype_history =
       (0.5, [UnderestimatesCosts 1 3, OverestimatesBenefits 1 3,
              DisproportionateBenefits 62500 50])"
    by (simp add: hype_history_patterns r hype_values)
  from validate_truthful_reporting_score_rule [of cheap_proposal "[lambda_proposal]"] n(2)
  have "validate_truthful_reporting cheap_proposal [lambda_proposal] =
          (max 0 (1 - (if cost_pattern [lambda_proposal] then 0.2 else 0)
                    - (if time_pattern [lambda_proposal] then 0.2 else 0)
                    - (if red_flag cheap_proposal then 0.1 else 0)),
           (if cost_pattern [lambda_proposal]
            then [UnderestimatesCosts (length (filter underestimated_cost [lambda_proposal]))
                    (length [lambda_proposal])]
            else [])
           @ (if time_pattern [lambda_proposal]
              then [OverestimatesBenefits (length (filter overestimated_benefit [lambda_proposal]))
                      (length [lambda_proposal])]
              else [])
           @ (if red_flag cheap_proposal
              then [DisproportionateBenefits (total_value (metrics cheap_proposal))
                      (implementation_cost_usd cheap_proposal)]
              else []))"
    by blast
  then have c: "validate_truthful_reporting cheap_proposal [lambda_proposal] = (1, [])"
    by (simp add: clean_history r)
  from n r g c hype_history_patterns(1,2) clean_history show ?thesis by blast
qed

text \<open>
  Claim C6 as stated fails on the third deduction: a proposal worth 2625 at a cost of 1
  claims more than a hundred times its cost, yet with a clean history it scores 1.0,
  not 0.9.
\<close>

theorem validate_truthful_reporting_hundredfold_counterexample:
  "total_value (metrics cheap_proposal) > 100 * implementation_cost_usd cheap_proposal
   \<and> fst (validate_truthful_reporting cheap_proposal [lambda_proposal]) = 1
   \<and> claimed_truthfulness_score cheap_proposal [lambda_proposal] = 0.9"
  by (simp add: cheap_score cheap_claimed cheap_values)

section \<open>Facts about \<^verbatim>\<open>complexity_score\<close>\<close>

lemma complexity_score_eq:
  "complexity_score p =
     min (real (length (affected_controls p)) * 5 + min (implementation_time_hours p) 40
            + min (implementation_cost_usd p / 100) 20
            + min (real (length (Proposal.description p)) / 100) 15) 100"
  by (simp add: complexity_score_def Let_def)

lemma complexity_score_le_100: "complexity_score p \<le> 100"
  by (simp add: complexity_score_eq)

lemma complexity_score_nonneg:
  "0 \<le> implementation_time_hours p \<Longrightarrow> 0 \<le> implementation_cost_usd p \<Longrightarrow>
   0 \<le> complexity_score p \<and> complexity_score p = claimed_complexity_score p"
  by (simp add: complexity_score_eq claimed_complexity_score_def min.commute mult.commute [of 5])

lemma complexity_score_mono:
  "length (affected_controls p) \<le> length (affected_controls q) \<Longrightarrow>
   implementation_time_hours p \<le> implementation_time_hours q \<Longrightarrow>
   implementation_cost_usd p \<le> implementation_cost_usd q \<Longrightarrow>
   length (Proposal.description p) \<le> length (Proposal.description q) \<Longrightarrow>
   complexity_score p \<le> complexity_score q"
  unfolding complexity_score_eq
  by (intro min.mono add_mono mult_right_mono divide_right_mono order_refl) simp_all

text \<open>
  Claim C7.  The code caps the score at 100 but has no floor at 0: with an implementation
  time of minus sixty hours the score is negative, where the clamp of the claim gives 0.
  For proposals whose time and cost are not negative the two agree
  (\<open>complexity_score_nonneg\<close>), the score never exceeds 100
  (\<open>complexity_score_le_100\<close>) and it is monotone (\<open>complexity_score_mono\<close>).
\<close>

theorem complexity_score_below_zero:
  "complexity_score negative_time_proposal = - 54.14
   \<and> claimed_complexity_score negative_time_proposal = 0"
  by (simp add: complexity_score_eq claimed_complexity_score_def negative_time_proposal_def
      lambda_proposal_def)

section \<open>Facts about \<^verbatim>\<open>validate_review_diligence\<close>\<close>

lemma engagement_score_eq:
  "engagement_score r =
     (if questions_asked r > 0 then 1 else 0)
      + (if length (documents_reviewed r) > 0 then 1 else 0)
      + (if length (comments r) > 100 then 1 else 0)
      + (if concerns_raised r \<noteq> [] then 1 else 0)"
  by (simp add: engagement_score_def Let_def)

lemma validate_review_diligence_eq:
  "validate_review_diligence p r =
     (\<not> too_short p r \<and> \<not> too_long p r \<and> \<not> thin_approval r \<and> \<not> bare_rejection r
        \<and> \<not> low_engagement r,
      (if too_short p r
       then [ReviewTooShort (review_duration_minutes r) (complexity_score p)
               (complexity_score p * 0.5)] else [])
      @ (if too_long p r
         then [ReviewTooLong (review_duration_minutes r) (complexity_score p)
                 (complexity_score p * 3.0)] else [])
      @ (if thin_approval r then [InsufficientComments (length (comments r))] else [])
      @ (if bare_rejection r then [NoConcernsForRejection] else [])
      @ (if low_engagement r then [LowEngagement (engagement_score r)] else []))"
  by (simp add: validate_review_diligence_def Let_def too_short_def too_long_def
      thin_approval_def bare_rejection_def low_engagement_def engagement_score_eq
      MIN_REVIEW_MINUTES_PER_COMPLEXITY_def MAX_REVIEW_MINUTES_PER_COMPLEXITY_def)

text \<open>
  Claim C8.  A review is diligent if and only if none of five flags fires: a duration
  below 0.5 minutes per complexity point; a duration above twice the maximum of 3.0
  minutes per complexity point; an approval with fewer than 50 characters of comment; a
  rejection with no concern recorded; an engagement score below 2.  Each flag is tested
  on its own and every flag that fires adds its issue to the list, in that order.
\<close>

theorem validate_review_diligence_five_flags:
  "(fst (validate_review_diligence p r) \<longleftrightarrow>
      \<not> too_short p r \<and> \<not> too_long p r \<and> \<not> thin_approval r \<and> \<not> bare_rejection r
        \<and> \<not> low_engagement r)
   \<and> snd (validate_review_diligence p r) =
       (if too_short p r
        then [ReviewTooShort (review_duration_minutes r) (complexity_score p)
                (complexity_score p * 0.5)] else [])
       @ (if too_long p r
          then [ReviewTooLong (review_duration_minutes r) (complexity_score p)
                  (complexity_score p * 3.0)] else [])
       @ (if thin_approval r then [InsufficientComments (length (comments r))] else [])
       @ (if bare_rejection r then [NoConcernsForRejection] else [])
       @ (if low_engagement r then [LowEngagement (engagement_score r)] else [])"
  unfolding validate_review_diligence_eq by simp

theorem validate_review_diligence_five_flags_witness:
  "too_short lambda_proposal rushed_review \<and> \<not> too_long lambda_proposal rushed_review
   \<and> thin_approval rushed_review \<and> \<not> bare_rejection rushed_review
   \<and> low_engagement rushed_review
   \<and> validate_review_diligence lambda_proposal rushed_review =
       (False, [ReviewTooShort 1 7.86 3.93, InsufficientComments 2, LowEngagement 0])
   \<and> validate_review_diligence lambda_proposal lambda_review = (True, [])"
proof -
  have c: "complexity_score lambda_proposal = 7.86"
    by (simp add: complexity_score_eq lambda_proposal_def)
  have f: "too_short lambda_proposal rushed_review" "\<not> too_long lambda_proposal rushed_review"
    "thin_approval rushed_review" "\<not> bare_rejection rushed_review"
    "low_engagement rushed_review"
    by (simp_all add: too_short_def too_long_def thin_approval_def bare_rejection_def
        low_engagement_def c rushed_review_def lambda_review_def)
  have g: "\<not> too_short lambda_proposal lambda_review" "\<not> too_long lambda_proposal lambda_review"
    "\<not> thin_approval lambda_review" "\<not> bare_rejection lambda_review"
    "\<not> low_engagement lambda_review"
    by (simp_all add: too_short_def too_long_def thin_approval_def bare_rejection_def
        low_engagement_def c lambda_review_def)
  have v: "review_duration_minutes rushed_review = 1" "length (comments rushed_review) = 2"
    "engagement_score rushed_review = 0"
    by (simp_all add: engagement_score_eq rushed_review_def lambda_review_def)
  from validate_review_diligence_five_flags [of lambda_proposal rushed_review]
  have r: "validate_review_diligence lambda_proposal rushed_review =
       (False, [ReviewTooShort 1 7.86 3.93, InsufficientComments 2, LowEngagement 0])"
    by (simp add: f v c prod_eq_iff)
  from validate_review_diligence_five_flags [of lambda_proposal lambda_review]
  have d: "validate_review_diligence lambda_proposal lambda_review = (True, [])"
    by (simp add: g prod_eq_iff)
  from f r d show ?thesis by blast
qed

section \<open>Facts about the reputation update\<close>

lemma defect_then_cooperate:
  assumes "q0 < 0.5" "0.85 \<le> q1" "0.85 \<le> q2" "0.85 \<le> q3"
  shows "cooperation_score (record_outcomes (new_reputation aid) [q0]) = 0.7"
    and "cooperation_score (record_outcomes (new_reputation aid) [q0, q1, q2, q3]) = 0.85"
  using assms by (simp_all add: record_outcomes_def record_outcome_quality_def new_reputation_def)

text \<open>
  Claim C9, as the update rule gives it.  Starting from the score 1.0, one resolved
  proposal of outcome quality below 0.5 brings the score to 0.7; three further resolved
  proposals of outcome quality at least 0.85 each bring it to 0.85, not to 0.95.
\<close>

theorem reputation_drop_and_recovery:
  assumes "q0 < 0.5" and "0.85 \<le> q1" and "0.85 \<le> q2" and "0.85 \<le> q3"
  shows "cooperation_score (new_reputation aid) = 1.0
   \<and> cooperation_score (record_outcomes (new_reputation aid) [q0]) \<le> 0.7
   \<and> cooperation_score (record_outcomes (new_reputation aid) [q0]) = 0.7
   \<and> cooperation_score (record_outcomes (new_reputation aid) [q0, q1, q2, q3]) = 0.85"
  using defect_then_cooperate [OF assms, of aid] by (simp add: new_reputation_def)

theorem reputation_drop_and_recovery_witness:
  "(0.4::real) < 0.5 \<and> (0.85::real) \<le> 0.9
   \<and> cooperation_score (record_outcomes (new_reputation ''ops-agent'') [0.4]) = 0.7
   \<and> cooperation_score (record_outcomes (new_reputation ''ops-agent'') [0.4, 0.9, 0.9, 0.9]) = 0.85"
proof -
  have a: "(0.4::real) < 0.5" and b: "(0.85::real) \<le> 0.9" by simp_all
  from reputation_drop_and_recovery [OF a b b b, of "''ops-agent''"] a b
  show ?thesis by blast
qed

text \<open>
  Claim C9 as stated fails in its last part: after a drop to 0.7, three rounds of
  cooperation leave the score at 0.85, below 0.95.
\<close>

theorem reputation_recovery_counterexample:
  "(0.4::real) < 0.5 \<and> (0.85::real) \<le> 0.9
   \<and> \<not> 0.95 \<le> cooperation_score
                    (record_outcomes (new_reputation ''ops-agent'') [0.4, 0.9, 0.9, 0.9])"
  by (simp add: record_outcomes_def record_outcome_quality_def new_reputation_def)

end
